theory Spec2Isabelle
  imports Main
begin

section \<open>Python strings\<close>

text \<open>
  A Python \<open>str\<close> is a sequence of Unicode code points, so a character is a natural number
  and \<open>len\<close> is \<open>length\<close>. ASCII text is written through \<open>u\<close>; every other code point
  is written as its number (\<open>229\<close> is LATIN SMALL LETTER A WITH RING ABOVE).
\<close>

type_synonym uchar = nat
type_synonym ustring = "nat list"

definition u :: "string \<Rightarrow> ustring" where
  "u s = map of_char s"

text \<open>
  The character tables of the Python runtime are not part of the repository; the code
  reaches them through \<open>str.lower\<close>, \<open>str.strip\<close>, \<open>str.split\<close> and the classes
  \<open>\w\<close>, \<open>\s\<close>, \<open>\b\<close> of \<open>re\<close>. They are a parameter of every function that uses them.
\<close>

record unicode_db =
  uni_word :: "uchar \<Rightarrow> bool"
  uni_space :: "uchar \<Rightarrow> bool"
  uni_lower :: "ustring \<Rightarrow> ustring"

text \<open>
  \<open>latin1\<close> agrees with CPython's tables on the code points below 256 (and on all
  whitespace); beyond them it treats a character as a symbol that \<open>lower\<close> leaves alone.
  It is used to evaluate the functions on concrete Danish and English text.
\<close>

definition latin1_word :: "uchar \<Rightarrow> bool" where
  "latin1_word c = ((48 \<le> c \<and> c \<le> 57) \<or> (65 \<le> c \<and> c \<le> 90) \<or> c = 95 \<or> (97 \<le> c \<and> c \<le> 122)
     \<or> c = 170 \<or> c = 178 \<or> c = 179 \<or> c = 181 \<or> c = 185 \<or> c = 186 \<or> (188 \<le> c \<and> c \<le> 190)
     \<or> (192 \<le> c \<and> c \<le> 214) \<or> (216 \<le> c \<and> c \<le> 246) \<or> (248 \<le> c \<and> c \<le> 255))"

definition py_space :: "uchar \<Rightarrow> bool" where
  "py_space c = ((9 \<le> c \<and> c \<le> 13) \<or> (28 \<le> c \<and> c \<le> 32) \<or> c = 133 \<or> c = 160 \<or> c = 5760
     \<or> (8192 \<le> c \<and> c \<le> 8202) \<or> c = 8232 \<or> c = 8233 \<or> c = 8239 \<or> c = 8287 \<or> c = 12288)"

definition latin1_lower_char :: "uchar \<Rightarrow> uchar" where
  "latin1_lower_char c =
     (if (65 \<le> c \<and> c \<le> 90) \<or> (192 \<le> c \<and> c \<le> 214) \<or> (216 \<le> c \<and> c \<le> 222) then c + 32 else c)"

definition latin1 :: unicode_db where
  "latin1 = \<lparr>uni_word = latin1_word, uni_space = py_space, uni_lower = map latin1_lower_char\<rparr>"

text \<open>\<open>s.split()\<close>: the maximal runs of non-whitespace characters, in order.\<close>

fun split_acc :: "(uchar \<Rightarrow> bool) \<Rightarrow> ustring \<Rightarrow> ustring \<Rightarrow> ustring list" where
  "split_acc sp cur [] = (if cur = [] then [] else [cur])"
| "split_acc sp cur (c # cs) =
     (if sp c then (if cur = [] then split_acc sp [] cs else cur # split_acc sp [] cs)
      else split_acc sp (cur @ [c]) cs)"

definition py_split :: "unicode_db \<Rightarrow> ustring \<Rightarrow> ustring list" where
  "py_split U s = split_acc (uni_space U) [] s"

text \<open>\<open>sep.join(xs)\<close>.\<close>

fun py_join :: "ustring \<Rightarrow> ustring list \<Rightarrow> ustring" where
  "py_join sep [] = []"
| "py_join sep [x] = x"
| "py_join sep (x # y # ys) = x @ sep @ py_join sep (y # ys)"

text \<open>\<open>s.strip()\<close>: whitespace removed at both ends.\<close>

definition py_strip :: "unicode_db \<Rightarrow> ustring \<Rightarrow> ustring" where
  "py_strip U s = rev (dropWhile (uni_space U) (rev (dropWhile (uni_space U) s)))"

text \<open>\<open>str(n)\<close> for a natural number.\<close>

fun str_nat :: "nat \<Rightarrow> ustring" where
  "str_nat n = (if n < 10 then [48 + n] else str_nat (n div 10) @ [48 + n mod 10])"

declare str_nat.simps [simp del]

section \<open>Exceptions\<close>

text \<open>\<open>HTTPException\<close> with its status code and detail, the \<open>KeyError\<close> of the logging
  library, and \<open>Error\<close> for every other exception.\<close>

datatype exn = HTTPException nat ustring | KeyError | Error

section \<open>The rule engine (app/services/rule\_engine.py)\<close>

record intent_def =
  name :: ustring
  kwords :: "ustring list"
  response_template :: ustring
  priority :: int

definition intent_greeting :: intent_def where
  "intent_greeting = \<lparr>
     name = u ''greeting'',
     kwords = [
        u ''hej'',
        u ''goddag'',
        u ''hello'',
        u ''hejsa'',
        u ''hall'' @ [248] @ u ''j'',
        u ''hey'',
        u ''godmorgen'',
        u ''godaften'',
        u ''hi'',
        u ''davs'',
        u ''dav''],
     response_template = u ''Hej! Hvordan kan jeg hj'' @ [230] @ u ''lpe dig i dag?'',
     priority = 1\<rparr>"

definition intent_opening_hours :: intent_def where
  "intent_opening_hours = \<lparr>
     name = u ''opening_hours'',
     kwords = [
        [229] @ u ''bningstid'',
        [229] @ u ''bningstider'',
        [229] @ u ''bent'',
        u ''lukket'',
        [229] @ u ''bner'',
        u ''lukker'',
        u ''hvorn'' @ [229] @ u ''r '' @ [229] @ u ''bner'',
        u ''hvorn'' @ [229] @ u ''r lukker'',
        [229] @ u ''ben'',
        u ''lukke'',
        u ''opening'',
        u ''hours'',
        [229] @ u ''bent i dag''],
     response_template = u ''Vi har '' @ [229] @ u ''bent mandag-fredag kl. 09:00'' @ [8211] @ u ''17:00, weekend 10:00-14:00.'',
     priority = 2\<rparr>"

definition intent_prices :: intent_def where
  "intent_prices = \<lparr>
     name = u ''prices'',
     kwords = [
        u ''pris'',
        u ''priser'',
        u ''koster'',
        u ''honorar'',
        u ''tilbud'',
        u ''hvad koster'',
        u ''prisoverslag'',
        u ''betaling'',
        u ''betale'',
        u ''kr'',
        u ''kroner'',
        u ''betale'',
        u ''pris p'' @ [229]],
     response_template = u ''Priser afh'' @ [230] @ u ''nger af den konkrete ydelse. Kontakt os gerne for et skr'' @ [230] @ u ''ddersyet tilbud.'',
     priority = 2\<rparr>"

definition intent_booking :: intent_def where
  "intent_booking = \<lparr>
     name = u ''booking'',
     kwords = [
        u ''book'',
        u ''booking'',
        u ''bestil'',
        u ''aftale'',
        u ''reservation'',
        u ''tid'',
        u ''book en tid'',
        u ''reservere'',
        u ''time'',
        u ''bestille''],
     response_template = u ''Du kan booke en tid via vores hjemmeside eller ringe til os.'',
     priority = 2\<rparr>"

definition intent_contact :: intent_def where
  "intent_contact = \<lparr>
     name = u ''contact'',
     kwords = [
        u ''kontakt'',
        u ''telefon'',
        u ''email'',
        u ''mail'',
        u ''nummer'',
        u ''ring'',
        u ''tlf'',
        u ''ringe'',
        u ''kontakte'',
        u ''f'' @ [229] @ u '' fat i''],
     response_template = u ''Du kan kontakte os p'' @ [229] @ u '' telefon +45 12 34 56 78 eller via email kontakt@example.dk.'',
     priority = 2\<rparr>"

definition intent_location :: intent_def where
  "intent_location = \<lparr>
     name = u ''location'',
     kwords = [
        u ''adresse'',
        u ''lokation'',
        u ''finde jer'',
        u ''hvor ligger'',
        u ''parkering'',
        u ''adresse'',
        u ''beliggenhed'',
        u ''hvor er'',
        u ''placering'',
        u ''hvordan finder jeg''],
     response_template = u ''Vi holder til p'' @ [229] @ u '' Eksempelvej 12, 1234 By. Der er gratis parkering ved bygningen.'',
     priority = 2\<rparr>"

definition intent_services :: intent_def where
  "intent_services = \<lparr>
     name = u ''services'',
     kwords = [
        u ''ydelse'',
        u ''ydelser'',
        u ''service'',
        u ''services'',
        u ''tilbud'',
        u ''laver i'',
        u ''kan i'',
        u ''g'' @ [248] @ u ''r i'',
        u ''hvad laver''],
     response_template = u ''Vi tilbyder [inds'' @ [230] @ u ''t jeres ydelser]. Kontakt os for mere information om en specifik ydelse.'',
     priority = 2\<rparr>"

definition intent_shipping :: intent_def where
  "intent_shipping = \<lparr>
     name = u ''shipping'',
     kwords = [
        u ''forsendelse'',
        u ''levering'',
        u ''fragt'',
        u ''leveringstid'',
        u ''track'',
        u ''tracking'',
        u ''sendelse'',
        u ''levere''],
     response_template = u ''Vi leverer typisk inden for 1'' @ [8211] @ u ''3 hverdage. Du modtager tracking n'' @ [229] @ u ''r pakken er afsendt.'',
     priority = 2\<rparr>"

definition intent_returns :: intent_def where
  "intent_returns = \<lparr>
     name = u ''returns'',
     kwords = [
        u ''returnering'',
        u ''retur'',
        u ''bytte'',
        u ''refusion'',
        u ''fortryd'',
        u ''returnere'',
        u ''ombytning'',
        u ''penge retur''],
     response_template = u ''Du har 14 dages returret. Kontakt os, s'' @ [229] @ u '' guider vi dig gennem processen.'',
     priority = 2\<rparr>"

definition intent_order_status :: intent_def where
  "intent_order_status = \<lparr>
     name = u ''order_status'',
     kwords = [
        u ''ordre'',
        u ''ordrenummer'',
        u ''min ordre'',
        u ''ordrestatus'',
        u ''bestilling'',
        u ''min bestilling'',
        u ''status'',
        u ''hvor er''],
     response_template = u ''Send gerne dit ordrenummer, s'' @ [229] @ u '' kan vi hj'' @ [230] @ u ''lpe dig med at finde din ordre.'',
     priority = 2\<rparr>"

definition intent_payments :: intent_def where
  "intent_payments = \<lparr>
     name = u ''payments'',
     kwords = [
        u ''betaling'',
        u ''betalingsmetoder'',
        u ''kort'',
        u ''mobilepay'',
        u ''faktura'',
        u ''betale'',
        u ''betalingsmulighed'',
        u ''betale med''],
     response_template = u ''Vi tager imod kortbetaling, MobilePay og faktura.'',
     priority = 2\<rparr>"

definition intent_goodbye :: intent_def where
  "intent_goodbye = \<lparr>
     name = u ''goodbye'',
     kwords = [
        u ''farvel'',
        u ''hej hej'',
        u ''tak'',
        u ''tak for hj'' @ [230] @ u ''lpen'',
        u ''bye'',
        u ''goodbye'',
        u ''ses'',
        u ''god dag''],
     response_template = u ''Tak fordi du skrev! Kontakt os gerne igen hvis du har flere sp'' @ [248] @ u ''rgsm'' @ [229] @ u ''l.'',
     priority = 1\<rparr>"

definition intent_help :: intent_def where
  "intent_help = \<lparr>
     name = u ''help'',
     kwords = [
        u ''hj'' @ [230] @ u ''lp'',
        u ''hj'' @ [230] @ u ''lpe'',
        u ''support'',
        u ''kundeservice'',
        u ''assistance'',
        u ''problem'',
        u ''issue''],
     response_template = u ''Jeg er her for at hj'' @ [230] @ u ''lpe! Hvad kan jeg g'' @ [248] @ u ''re for dig?'',
     priority = 2\<rparr>"

definition intent_human_support :: intent_def where
  "intent_human_support = \<lparr>
     name = u ''human_support'',
     kwords = [
        u ''menneske'',
        u ''medarbejder'',
        u ''tale med'',
        u ''rigtig person'',
        u ''agent'',
        u ''support'',
        u ''kundeservice'',
        u ''ikke robot''],
     response_template = u ''Selvf'' @ [248] @ u ''lgelig! Du kan kontakte vores kundeservice p'' @ [229] @ u '' telefon +45 12 34 56 78 eller email kontakt@example.dk.'',
     priority = 3\<rparr>"

definition intent_defs :: "intent_def list" where
  "intent_defs = [intent_greeting, intent_opening_hours, intent_prices, intent_booking, intent_contact, intent_location, intent_services, intent_shipping, intent_returns, intent_order_status, intent_payments, intent_goodbye, intent_help, intent_human_support]"

text \<open>
  \<open>RuleEngine.__init__\<close> sorts the catalog once, by priority, highest first. Python's
  \<open>list.sort\<close> is stable, also with \<open>reverse=True\<close>: intents of equal priority keep
  their order of definition.
\<close>

definition rule_engine_init :: "intent_def list \<Rightarrow> intent_def list" where
  "rule_engine_init defs = sort_key (\<lambda>x. - priority x) defs"

definition intents :: "intent_def list" where
  "intents = rule_engine_init intent_defs"

text \<open>
  A response payload. The source passes dictionaries around and reads them with
  \<open>get\<close>; \<open>ChatResponse\<close> keeps the five keys below and gives \<open>is_ai\<close> and
  \<open>tokens_used\<close> their defaults (\<open>False\<close>, \<open>None\<close>) when a dictionary lacks them.
\<close>

record response_data =
  reply :: ustring
  intent :: "ustring option"
  is_ai :: bool
  is_fallback :: bool
  tokens_used :: "nat option"

definition write_something_reply :: ustring where
  "write_something_reply = u ''Skriv gerne en besked, s'' @ [229] @ u '' hj'' @ [230] @ u ''lper jeg '' @ [128522]"

definition engine_fallback_reply :: ustring where
  "engine_fallback_reply = u ''Jeg forstod ikke helt. Kan du omformulere, eller vil du gerne tale med en medarbejder?''"

text \<open>\<open>_normalize\<close>: lowercase, every character outside \<open>\w\<close> and \<open>\s\<close> becomes a space,
  runs of whitespace collapse to one space.\<close>

definition strip_punctuation :: "unicode_db \<Rightarrow> ustring \<Rightarrow> ustring" where
  "strip_punctuation U text = map (\<lambda>c. if uni_word U c \<or> uni_space U c then c else 32) text"

definition normalize :: "unicode_db \<Rightarrow> ustring \<Rightarrow> ustring" where
  "normalize U text = py_join [32] (py_split U (strip_punctuation U (uni_lower U text)))"

text \<open>
  \<open>\b\<close> at position \<open>p\<close> of \<open>s\<close>: exactly one of the characters before and after the
  position is a word character (a missing character counts as a non-word character).
\<close>

definition word_boundary :: "unicode_db \<Rightarrow> ustring \<Rightarrow> nat \<Rightarrow> bool" where
  "word_boundary U s p =
     ((0 < p \<and> p \<le> length s \<and> uni_word U (s ! (p - 1))) \<noteq> (p < length s \<and> uni_word U (s ! p)))"

text \<open>
  \<open>re.search(r'\b' + re.escape(k) + r'\b', s)\<close>: some position of \<open>s\<close> where \<open>k\<close>
  occurs literally with a word boundary on both sides.
\<close>

definition occurs_at :: "unicode_db \<Rightarrow> ustring \<Rightarrow> ustring \<Rightarrow> nat \<Rightarrow> bool" where
  "occurs_at U k s p =
     (take (length k) (drop p s) = k \<and> word_boundary U s p \<and> word_boundary U s (p + length k))"

definition re_search_word :: "unicode_db \<Rightarrow> ustring \<Rightarrow> ustring \<Rightarrow> bool" where
  "re_search_word U k s = list_ex (occurs_at U k s) [0 ..< Suc (length s) - length k]"

text \<open>
  \<open>_match_intent\<close>: the inner loop over the keywords of one intent, and the outer loop
  over the engine's list, which it walks as it is. On the first hit the source calls
  \<open>logger.debug\<close> with \<open>extra={"message": ...}\<close> and then returns the intent.
  \<open>message\<close> is an attribute of every log record, so when the logger is enabled for
  \<open>DEBUG\<close> (\<open>dbg\<close>) the logging library raises \<open>KeyError\<close> while it makes the record;
  when it is not (the configured default level is \<open>INFO\<close>) the call does nothing.
\<close>

fun keyword_hit :: "unicode_db \<Rightarrow> ustring list \<Rightarrow> ustring \<Rightarrow> bool" where
  "keyword_hit U [] normalized_message = False"
| "keyword_hit U (keyword # rest) normalized_message =
     (if re_search_word U (uni_lower U keyword) normalized_message then True
      else keyword_hit U rest normalized_message)"

fun match_intent ::
  "bool \<Rightarrow> unicode_db \<Rightarrow> intent_def list \<Rightarrow> ustring \<Rightarrow> exn + intent_def option" where
  "match_intent dbg U [] normalized_message = Inr None"
| "match_intent dbg U (i # rest) normalized_message =
     (if keyword_hit U (kwords i) normalized_message then
        (if dbg then Inl KeyError else Inr (Some i))
      else match_intent dbg U rest normalized_message)"

text \<open>\<open>RuleEngine.get_response\<close>; the client identifier is accepted and not used, and an
  exception of the matcher passes through.\<close>

definition rule_get_response ::
  "bool \<Rightarrow> unicode_db \<Rightarrow> ustring \<Rightarrow> ustring \<Rightarrow> exn + response_data" where
  "rule_get_response dbg U message client_id =
     (if message = [] then
        Inr \<lparr>reply = write_something_reply, intent = None, is_ai = False, is_fallback = True,
             tokens_used = None\<rparr>
      else
        (case match_intent dbg U intents (normalize U message) of
           Inl e \<Rightarrow> Inl e
         | Inr (Some matched_intent) \<Rightarrow>
             Inr \<lparr>reply = response_template matched_intent, intent = Some (name matched_intent),
                  is_ai = False, is_fallback = False, tokens_used = None\<rparr>
         | Inr None \<Rightarrow>
             Inr \<lparr>reply = engine_fallback_reply, intent = None, is_ai = False,
                  is_fallback = True, tokens_used = None\<rparr>))"

section \<open>The stores and the outside world\<close>

text \<open>The \<open>clients\<close> table (app/models/client.py), with the columns the pipeline reads.\<close>

record client =
  company_name :: ustring
  website_url :: "ustring option"
  is_active :: bool
  use_ai :: bool
  ai_requests_today :: int
  ai_requests_limit :: int

text \<open>
  Modelled from the spec: the \<open>Conversation\<close> and \<open>Message\<close> tables of
  app/models/conversation.py, which is not among the sources. A conversation is found by
  its session identifier; the stored turns of the history store are kept oldest first, the
  order of their \<open>created_at\<close> column.
\<close>

record conversation =
  conv_id :: nat
  conv_client_id :: ustring
  conv_session_id :: ustring

record message =
  conversation_id :: nat
  msg_role :: ustring
  msg_content :: ustring
  msg_intent :: "ustring option"
  msg_is_ai :: bool
  msg_tokens_used :: "nat option"

text \<open>A turn of \<open>conversation_history\<close>, and the form the AI capability takes it in.\<close>

record turn =
  role :: ustring
  content :: ustring

record gemini_turn =
  g_role :: ustring
  parts :: "ustring list"

text \<open>One invocation of the AI completion capability: \<open>start_chat(history)\<close> followed
  by \<open>send_message(full_prompt)\<close>.\<close>

record ai_request =
  history :: "gemini_turn list"
  prompt :: ustring

text \<open>
  The interactions with the outside, named so that a failure of each can be told apart,
  and the trace the pipeline leaves: which stores it consulted, what the gate answered,
  which requests reached the AI capability, and which interaction raised.
\<close>

datatype store_op =
  ClientLookup | ConversationLookup | ConversationCreate | HistoryQuery
  | GateStore | KnowledgeStore | SaveTurns

datatype event =
  HistoryRead nat
  | GateChecked ustring bool
  | KnowledgeFetched ustring
  | AICalled ai_request
  | StoreFailed store_op

record world =
  clients :: "ustring \<rightharpoonup> client"
  conversations :: "conversation list"
  messages :: "message list"
  events :: "event list"

text \<open>
  What the outside does during one request: which store interactions raise (a raised
  interaction leaves the stored data as it was), what the knowledge store holds for a
  tenant, what the AI capability answers (\<open>None\<close>: it raises, a timeout reported by
  the client library included), and whether the process is configured so that the rule
  engine's logger is enabled for \<open>DEBUG\<close> (\<open>LOG_LEVEL\<close> of app/core/config.py).
\<close>

record env =
  debug_logging :: bool
  fails :: "store_op \<Rightarrow> bool"
  knowledge_texts :: "ustring \<Rightarrow> ustring list"
  complete :: "ai_request \<Rightarrow> ustring option"

definition log_event :: "event \<Rightarrow> world \<Rightarrow> world" where
  "log_event e w = w\<lparr>events := events w @ [e]\<rparr>"

definition store_raises :: "store_op \<Rightarrow> world \<Rightarrow> (exn + 'a) \<times> world" where
  "store_raises op w = (Inl Error, log_event (StoreFailed op) w)"

section \<open>The AI service (app/services/ai\_service.py)\<close>

definition instructions_head :: ustring where
  "instructions_head =
     u ''Du er en professionel kundeservice chatbot for ''"

definition instructions_body :: ustring where
  "instructions_body =
     u ''.'' @ [10, 10] @ u ''DINE OPGAVER:'' @ [10] @ u ''1. Svar venligt, pr'' @ [230]
     @ u ''cist og professionelt p'' @ [229] @ u '' kundens sp'' @ [248] @ u ''rgsm''
     @ [229] @ u ''l'' @ [10] @ u ''2. Brug ALTID informationen fra videnbasen nedenfor''
     @ [10] @ u ''3. Hvis du ikke ved svaret med sikkerhed, v'' @ [230] @ u ''r '' @ [230]
     @ u ''rlig og tilbyd at viderestille til en medarbejder'' @ [10]
     @ u ''4. Hold svar korte og pr'' @ [230] @ u ''cise (max 100 ord)'' @ [10]
     @ u ''5. Skriv ALTID p'' @ [229] @ u '' dansk'' @ [10] @ u ''6. V'' @ [230]
     @ u ''r hj'' @ [230] @ u ''lpsom men aldrig opdigtende'' @ [10, 10] @ u ''REGLER:''
     @ [10] @ u ''- Giv ALDRIG juridisk, medicinsk eller finansiel r'' @ [229]
     @ u ''dgivning'' @ [10] @ u ''- Fort'' @ [230]
     @ u ''l ALDRIG om priser du ikke kender med sikkerhed'' @ [10]
     @ u ''- Lov ALDRIG noget p'' @ [229] @ u '' vegne af virksomheden'' @ [10]
     @ u ''- Hvis usikker: '' @ [34]
     @ u ''Lad mig viderestille dig til en medarbejder som kan hj'' @ [230]
     @ u ''lpe bedre'' @ [34, 10, 10] @ u ''TONE:'' @ [10] @ u ''- Professionel men venlig''
     @ [10] @ u ''- Dansk sprogbrug'' @ [10] @ u ''- Kort og konkret'' @ [10]"

definition knowledge_header :: ustring where
  "knowledge_header =
     [10, 10] @ u ''VIDENBASE (brug denne information til at svare):'' @ [10]"

definition website_header :: ustring where
  "website_header =
     [10, 10] @ u ''VIRKSOMHEDENS HJEMMESIDE: ''"

definition closing_reminder :: ustring where
  "closing_reminder =
     [10, 10] @ u ''Husk: Hvis du ikke kan svare pr'' @ [230] @ u ''cist baseret p'' @ [229]
     @ u '' videnbasen, v'' @ [230] @ u ''r '' @ [230]
     @ u ''rlig og tilbyd at viderestille.''"

definition user_question_header :: ustring where
  "user_question_header =
     [10, 10] @ u ''USER SP'' @ [216] @ u ''RGSM'' @ [197] @ u ''L:'' @ [10]"

definition answer_footer :: ustring where
  "answer_footer =
     [10, 10] @ u ''SVAR (HUSK: Max 100 ord, p'' @ [229] @ u '' dansk):''"

definition ai_error_reply :: ustring where
  "ai_error_reply = u ''Der opstod en fejl med AI-tjenesten. Lad mig viderestille dig til en medarbejder.''"

record client_info =
  info_company_name :: "ustring option"
  info_website_url :: "ustring option"

text \<open>\<open>_build_system_prompt\<close>. A key missing from \<open>client_info\<close> is \<open>None\<close>; a website
  that is missing, null or empty adds nothing.\<close>

definition knowledge_page :: "nat \<times> ustring \<Rightarrow> ustring" where
  "knowledge_page p = (case p of (i, kb) \<Rightarrow> u ''--- Side '' @ str_nat (i + 1) @ u '' ---'' @ [10] @ kb)"

definition build_system_prompt :: "ustring \<Rightarrow> ustring list \<Rightarrow> client_info \<Rightarrow> ustring" where
  "build_system_prompt client_id knowledge_base info =
     (let company = (case info_company_name info of Some n \<Rightarrow> n | None \<Rightarrow> client_id);
          website = (case info_website_url info of Some w \<Rightarrow> w | None \<Rightarrow> []);
          prompt0 = instructions_head @ company @ instructions_body;
          prompt1 = (if knowledge_base \<noteq> [] then
                       prompt0 @ knowledge_header
                         @ py_join [10, 10] (map knowledge_page (enumerate 0 (take 10 knowledge_base)))
                     else prompt0);
          prompt2 = (if website \<noteq> [] then prompt1 @ website_header @ website else prompt1)
      in prompt2 @ closing_reminder)"

text \<open>\<open>conversation_history[-5:]\<close> and the translation of a turn for the capability.\<close>

definition last_five :: "'a list \<Rightarrow> 'a list" where
  "last_five xs = drop (length xs - 5) xs"

definition to_gemini :: "turn \<Rightarrow> gemini_turn" where
  "to_gemini msg =
     \<lparr>g_role = (if role msg = u ''assistant'' then u ''model'' else u ''user''),
      parts = [content msg]\<rparr>"

definition full_prompt :: "ustring \<Rightarrow> ustring \<Rightarrow> ustring" where
  "full_prompt system_prompt message =
     system_prompt @ user_question_header @ message @ answer_footer"

text \<open>The capability is invoked here and nowhere else; every invocation is traced.\<close>

definition send_message :: "env \<Rightarrow> ai_request \<Rightarrow> world \<Rightarrow> ustring option \<times> world" where
  "send_message E r w = (complete E r, log_event (AICalled r) w)"

text \<open>\<open>GeminiService.get_response\<close>: one attempt; an exception of the capability becomes
  the apology, and the keys \<open>model\<close>, \<open>cost\<close> and \<open>error\<close> of the result are dropped
  by \<open>ChatResponse\<close>.\<close>

definition ai_get_response ::
  "unicode_db \<Rightarrow> env \<Rightarrow> ustring \<Rightarrow> ustring \<Rightarrow> ustring list \<Rightarrow> turn list \<Rightarrow> client_info
     \<Rightarrow> world \<Rightarrow> response_data \<times> world" where
  "ai_get_response U E message client_id knowledge_base conversation_history info w =
     (let system_prompt = build_system_prompt client_id knowledge_base info;
          chat_history = map to_gemini (last_five conversation_history);
          fp = full_prompt system_prompt message
      in (case send_message E \<lparr>history = chat_history, prompt = fp\<rparr> w of
            (Some text, w') \<Rightarrow>
              (\<lparr>reply = text, intent = Some (u ''ai_response''), is_ai = True, is_fallback = False,
                tokens_used = Some (length (py_split U fp) + length (py_split U text))\<rparr>, w')
          | (None, w') \<Rightarrow>
              (\<lparr>reply = ai_error_reply, intent = None, is_ai = False, is_fallback = True,
                tokens_used = None\<rparr>, w')))"

text \<open>\<open>GeminiService.check_rate_limit\<close>, on a store that answers.\<close>

definition check_rate_limit :: "ustring \<Rightarrow> world \<Rightarrow> bool \<times> world" where
  "check_rate_limit client_id w =
     (case clients w client_id of
        None \<Rightarrow> (False, w)
      | Some c \<Rightarrow>
          if ai_requests_today c \<ge> ai_requests_limit c then (False, w)
          else (True, w\<lparr>clients := (clients w)(client_id \<mapsto>
                          c\<lparr>ai_requests_today := ai_requests_today c + 1\<rparr>)\<rparr>))"

section \<open>The orchestrator (app/api/chat.py)\<close>

record chat_request =
  req_message :: ustring
  req_client_id :: ustring
  req_session_id :: ustring
  req_use_ai :: bool

definition too_long_reply :: ustring where
  "too_long_reply = u ''Beskeden er for lang. Hold den venligst under 1000 tegn.''"

definition quota_exceeded_reply :: ustring where
  "quota_exceeded_reply = u ''Du har n'' @ [229] @ u ''et gr'' @ [230] @ u ''nsen for AI-foresp'' @ [248] @ u ''rgsler i dag. En medarbejder vil kontakte dig snart.''"

definition final_fallback_reply :: ustring where
  "final_fallback_reply = u ''Jeg forstod ikke helt. Lad mig viderestille dig til en medarbejder.''"

definition internal_error_reply :: ustring where
  "internal_error_reply = u ''Der opstod en fejl. Pr'' @ [248] @ u ''v igen senere.''"

text \<open>A \<open>ChatResponse\<close> built from a reply alone: \<open>is_fallback=True\<close>, every other
  field at its default.\<close>

definition canned :: "ustring \<Rightarrow> response_data" where
  "canned text =
     \<lparr>reply = text, intent = None, is_ai = False, is_fallback = True, tokens_used = None\<rparr>"

text \<open>Get or create the conversation of the session.\<close>

definition fresh_conv_id :: "world \<Rightarrow> nat" where
  "fresh_conv_id w = Suc (fold max (map conv_id (conversations w)) 0)"

definition get_or_create_conversation ::
  "env \<Rightarrow> chat_request \<Rightarrow> world \<Rightarrow> (exn + conversation) \<times> world" where
  "get_or_create_conversation E req w =
     (if fails E ConversationLookup then store_raises ConversationLookup w
      else
        (case find (\<lambda>c. conv_session_id c = req_session_id req) (conversations w) of
           Some c \<Rightarrow> (Inr c, w)
         | None \<Rightarrow>
             if fails E ConversationCreate then store_raises ConversationCreate w
             else
               (let c = \<lparr>conv_id = fresh_conv_id w, conv_client_id = req_client_id req,
                         conv_session_id = req_session_id req\<rparr>
                in (Inr c, w\<lparr>conversations := conversations w @ [c]\<rparr>))))"

text \<open>The ten most recent turns of the conversation, newest first as the query returns
  them, then reversed into \<open>conversation_history\<close>.\<close>

definition previous_messages :: "conversation \<Rightarrow> world \<Rightarrow> message list" where
  "previous_messages conv w =
     take 10 (rev (filter (\<lambda>m. conversation_id m = conv_id conv) (messages w)))"

definition turn_of :: "message \<Rightarrow> turn" where
  "turn_of msg = \<lparr>role = msg_role msg, content = msg_content msg\<rparr>"

definition get_history :: "env \<Rightarrow> conversation \<Rightarrow> world \<Rightarrow> (exn + turn list) \<times> world" where
  "get_history E conv w =
     (if fails E HistoryQuery then store_raises HistoryQuery w
      else (Inr (map turn_of (rev (previous_messages conv w))),
            log_event (HistoryRead (conv_id conv)) w))"

text \<open>The call of the usage gate from the orchestrator.\<close>

definition call_check_rate_limit :: "env \<Rightarrow> ustring \<Rightarrow> world \<Rightarrow> (exn + bool) \<times> world" where
  "call_check_rate_limit E client_id w =
     (if fails E GateStore then store_raises GateStore w
      else (case check_rate_limit client_id w of
              (allowed, w') \<Rightarrow> (Inr allowed, log_event (GateChecked client_id allowed) w')))"

text \<open>
  Modelled from the spec: \<open>knowledge_service.get_knowledge_texts\<close>
  (app/services/knowledge\_service.py is not among the sources). It returns the tenant's
  knowledge texts in their stored order, or fails when the knowledge store is unavailable.
\<close>

definition get_knowledge_texts :: "env \<Rightarrow> ustring \<Rightarrow> world \<Rightarrow> (exn + ustring list) \<times> world" where
  "get_knowledge_texts E client_id w =
     (if fails E KnowledgeStore then store_raises KnowledgeStore w
      else (Inr (knowledge_texts E client_id), log_event (KnowledgeFetched client_id) w))"

text \<open>Saving the user turn and the assistant turn, then returning the response.\<close>

definition save_turns ::
  "env \<Rightarrow> conversation \<Rightarrow> ustring \<Rightarrow> response_data \<Rightarrow> world \<Rightarrow> (exn + response_data) \<times> world" where
  "save_turns E conv message_text rd w =
     (if fails E SaveTurns then store_raises SaveTurns w
      else
        (let user_message = \<lparr>conversation_id = conv_id conv, msg_role = u ''user'',
                msg_content = message_text, msg_intent = None, msg_is_ai = False,
                msg_tokens_used = None\<rparr>;
             bot_message = \<lparr>conversation_id = conv_id conv, msg_role = u ''assistant'',
                msg_content = reply rd, msg_intent = intent rd, msg_is_ai = is_ai rd,
                msg_tokens_used = tokens_used rd\<rparr>
         in (Inr rd, w\<lparr>messages := messages w @ [user_message, bot_message]\<rparr>)))"

text \<open>Steps 1 to 3 of the endpoint: the rule attempt, the AI attempt behind the gate, the
  final fallback.\<close>

definition ai_attempt ::
  "unicode_db \<Rightarrow> env \<Rightarrow> chat_request \<Rightarrow> client \<Rightarrow> conversation \<Rightarrow> ustring \<Rightarrow> turn list
     \<Rightarrow> world \<Rightarrow> (exn + response_data) \<times> world" where
  "ai_attempt U E req c conv message_text conversation_history w =
     (case call_check_rate_limit E (req_client_id req) w of
        (Inl e, w1) \<Rightarrow> (Inl e, w1)
      | (Inr allowed, w1) \<Rightarrow>
          if \<not> allowed then (Inr (canned quota_exceeded_reply), w1)
          else
            (case get_knowledge_texts E (req_client_id req) w1 of
               (Inl e, w2) \<Rightarrow> (Inl e, w2)
             | (Inr knowledge_base, w2) \<Rightarrow>
                 (case ai_get_response U E message_text (req_client_id req) knowledge_base
                         conversation_history
                         \<lparr>info_company_name = Some (company_name c),
                          info_website_url = website_url c\<rparr> w2 of
                    (response, w3) \<Rightarrow> save_turns E conv message_text response w3)))"

definition respond ::
  "unicode_db \<Rightarrow> env \<Rightarrow> chat_request \<Rightarrow> client \<Rightarrow> conversation \<Rightarrow> ustring \<Rightarrow> turn list
     \<Rightarrow> world \<Rightarrow> (exn + response_data) \<times> world" where
  "respond U E req c conv message_text conversation_history w =
     (case rule_get_response (debug_logging E) U message_text (req_client_id req) of
        Inl e \<Rightarrow> (Inl e, w)
      | Inr rule_response \<Rightarrow>
          if \<not> is_fallback rule_response then save_turns E conv message_text rule_response w
          else if req_use_ai req \<and> use_ai c then
            ai_attempt U E req c conv message_text conversation_history w
          else save_turns E conv message_text (canned final_fallback_reply) w)"

text \<open>The body of the \<open>try\<close> block.\<close>

definition chat_try ::
  "unicode_db \<Rightarrow> env \<Rightarrow> chat_request \<Rightarrow> world \<Rightarrow> (exn + response_data) \<times> world" where
  "chat_try U E req w =
     (let message_text = py_strip U (req_message req) in
      if message_text = [] then (Inr (canned write_something_reply), w)
      else if length message_text > 1000 then (Inr (canned too_long_reply), w)
      else if fails E ClientLookup then store_raises ClientLookup w
      else
        (case clients w (req_client_id req) of
           None \<Rightarrow> (Inl (HTTPException 404 (u ''Client not found'')), w)
         | Some c \<Rightarrow>
             if \<not> is_active c then (Inl (HTTPException 403 (u ''Client is not active'')), w)
             else
               (case get_or_create_conversation E req w of
                  (Inl e, w1) \<Rightarrow> (Inl e, w1)
                | (Inr conv, w1) \<Rightarrow>
                    (case get_history E conv w1 of
                       (Inl e, w2) \<Rightarrow> (Inl e, w2)
                     | (Inr conversation_history, w2) \<Rightarrow>
                         respond U E req c conv message_text conversation_history w2))))"

text \<open>The endpoint with its handlers: an \<open>HTTPException\<close> is raised again, every other
  exception becomes the error reply.\<close>

definition handlers :: "exn + response_data \<Rightarrow> exn + response_data" where
  "handlers r =
     (case r of
        Inl (HTTPException code detail) \<Rightarrow> Inl (HTTPException code detail)
      | Inl KeyError \<Rightarrow> Inr (canned internal_error_reply)
      | Inl Error \<Rightarrow> Inr (canned internal_error_reply)
      | Inr response \<Rightarrow> Inr response)"

definition chat ::
  "unicode_db \<Rightarrow> env \<Rightarrow> chat_request \<Rightarrow> world \<Rightarrow> (exn + response_data) \<times> world" where
  "chat U E req w = (case chat_try U E req w of (r, w') \<Rightarrow> (handlers r, w'))"

text \<open>The identifier of the conversation a request is served in: that of the session's
  conversation, or the fresh one.\<close>

definition session_conv_id :: "chat_request \<Rightarrow> world \<Rightarrow> nat" where
  "session_conv_id req w =
     (case find (\<lambda>c. conv_session_id c = req_session_id req) (conversations w) of
        Some c \<Rightarrow> conv_id c
      | None \<Rightarrow> fresh_conv_id w)"

text \<open>The part of the trace a request adds, and a tenant's counter.\<close>

definition new_events :: "world \<Rightarrow> world \<Rightarrow> event list" where
  "new_events w w' = drop (length (events w)) (events w')"

definition requests_used :: "world \<Rightarrow> ustring \<Rightarrow> int" where
  "requests_used w client_id =
     (case clients w client_id of Some c \<Rightarrow> ai_requests_today c | None \<Rightarrow> 0)"

text \<open>The requests that reached the AI capability, read off a trace.\<close>

fun ai_calls :: "event list \<Rightarrow> ai_request list" where
  "ai_calls [] = []"
| "ai_calls (AICalled q # es) = q # ai_calls es"
| "ai_calls (e # es) = ai_calls es"

text \<open>
  The request \<open>ai_get_response\<close> sends when the orchestrator calls it for client \<open>c\<close>, and
  the payload it makes of the capability's answer; \<open>stored_turns\<close> are the turns the
  history store holds for a conversation, oldest first.
\<close>

definition ai_request_for ::
  "ustring \<Rightarrow> client \<Rightarrow> ustring \<Rightarrow> turn list \<Rightarrow> ustring list \<Rightarrow> ai_request" where
  "ai_request_for client_id c message_text conversation_history knowledge_base =
     \<lparr>history = map to_gemini (last_five conversation_history),
      prompt = full_prompt (build_system_prompt client_id knowledge_base
                 \<lparr>info_company_name = Some (company_name c), info_website_url = website_url c\<rparr>)
                 message_text\<rparr>"

definition ai_outcome :: "unicode_db \<Rightarrow> ai_request \<Rightarrow> ustring option \<Rightarrow> response_data" where
  "ai_outcome U q answer =
     (case answer of
        Some text \<Rightarrow>
          \<lparr>reply = text, intent = Some (u ''ai_response''), is_ai = True, is_fallback = False,
           tokens_used = Some (length (py_split U (prompt q)) + length (py_split U text))\<rparr>
      | None \<Rightarrow> canned ai_error_reply)"


section \<open>Concrete stores, environments and requests\<close>

text \<open>The tenant "kunde1": active, AI enabled, a daily limit of one, nothing used yet; and
  the same tenant with its one request used.\<close>

definition kunde1 :: client where
  "kunde1 = \<lparr>company_name = u ''Kunde 1'', website_url = None, is_active = True, use_ai = True,
             ai_requests_today = 0, ai_requests_limit = 1\<rparr>"

definition kunde1_spent :: client where
  "kunde1_spent = kunde1\<lparr>ai_requests_today := 1\<rparr>"

definition world1 :: world where
  "world1 = \<lparr>clients = [u ''kunde1'' \<mapsto> kunde1], conversations = [], messages = [], events = []\<rparr>"

definition world1_spent :: world where
  "world1_spent = world1\<lparr>clients := [u ''kunde1'' \<mapsto> kunde1_spent]\<rparr>"

text \<open>Environments: every interaction works, the capability answers and the log level
  is the default; the same with the rule engine's logger enabled for \<open>DEBUG\<close>, with the
  capability raising, with the knowledge store raising, with the history query raising,
  with the final save raising.\<close>

definition env_ok :: env where
  "env_ok = \<lparr>debug_logging = False, fails = (\<lambda>op. False),
             knowledge_texts = (\<lambda>cid. [u ''Vi har lukket i uge 29.'']),
             complete = (\<lambda>q. Some (u ''Her er svaret''))\<rparr>"

definition env_debug :: env where
  "env_debug = env_ok\<lparr>debug_logging := True\<rparr>"

definition env_ai_down :: env where
  "env_ai_down = env_ok\<lparr>complete := (\<lambda>q. None)\<rparr>"

definition env_knowledge_down :: env where
  "env_knowledge_down = env_ok\<lparr>fails := (\<lambda>op. op = KnowledgeStore)\<rparr>"

definition env_history_down :: env where
  "env_history_down = env_ok\<lparr>fails := (\<lambda>op. op = HistoryQuery)\<rparr>"

definition env_ai_and_save_down :: env where
  "env_ai_and_save_down = env_ok\<lparr>fails := (\<lambda>op. op = SaveTurns), complete := (\<lambda>q. None)\<rparr>"

text \<open>Requests: a message no rule matches, from "kunde1" and from an unknown tenant; a
  greeting followed by a thousand spaces; a thousand letters followed by a space.\<close>

definition req_xyz :: chat_request where
  "req_xyz = \<lparr>req_message = u ''xyz'', req_client_id = u ''kunde1'', req_session_id = u ''s1'',
              req_use_ai = True\<rparr>"

definition req_unknown :: chat_request where
  "req_unknown = req_xyz\<lparr>req_client_id := u ''nobody''\<rparr>"

definition req_padded :: chat_request where
  "req_padded = req_xyz\<lparr>req_message := u ''hej'' @ replicate 1000 32\<rparr>"

definition req_blank :: chat_request where
  "req_blank = req_xyz\<lparr>req_message := [32, 9, 32]\<rparr>"

definition req_long :: chat_request where
  "req_long = req_xyz\<lparr>req_message := replicate 1001 97\<rparr>"



section \<open>Unfolding the catalog and the matcher\<close>

lemmas catalog_defs = intent_greeting_def intent_opening_hours_def intent_prices_def
  intent_booking_def intent_contact_def intent_location_def intent_services_def
  intent_shipping_def intent_returns_def intent_order_status_def intent_payments_def
  intent_goodbye_def intent_help_def intent_human_support_def

lemmas match_defs = re_search_word_def occurs_at_def word_boundary_def u_def latin1_def
  latin1_word_def py_space_def latin1_lower_char_def

section \<open>Properties of the rule matcher\<close>

lemma keyword_hit_iff:
  "keyword_hit U kws msg \<longleftrightarrow> (\<exists>kw\<in>set kws. re_search_word U (uni_lower U kw) msg)"
  by (induction kws) auto

lemma match_intent_find:
  "match_intent dbg U xs msg =
     (case find (\<lambda>i. keyword_hit U (kwords i) msg) xs of
        None \<Rightarrow> Inr None
      | Some i \<Rightarrow> if dbg then Inl KeyError else Inr (Some i))"
  by (induction xs) auto

lemma find_exists: "x \<in> set xs \<Longrightarrow> P x \<Longrightarrow> \<exists>w. find P xs = Some w"
  by (induction xs) auto

text \<open>The first element of a stably sorted list that satisfies \<open>P\<close>: minimal for the sort
  key among the elements that satisfy \<open>P\<close>, and the earliest of the unsorted list among
  those of its key.\<close>

lemma first_of_stable_sort:
  fixes f :: "'a \<Rightarrow> int"
  assumes "find P (sort_key f defs) = Some w"
  shows "w \<in> set defs \<and> P w \<and> (\<forall>j\<in>set defs. P j \<longrightarrow> f w \<le> f j)
         \<and> w = hd (filter (\<lambda>j. P j \<and> f j = f w) defs)"
proof -
  let ?S = "sort_key f defs"
  from assms obtain n where n: "n < length ?S" "P (?S ! n)" "w = ?S ! n" "\<forall>m<n. \<not> P (?S ! m)"
    by (auto simp: find_Some_iff)
  define xs ys where "xs = take n ?S" and "ys = drop (Suc n) ?S"
  have S: "?S = xs @ w # ys"
    using n(1,3) by (simp add: xs_def ys_def id_take_nth_drop)
  have noP: "\<forall>x\<in>set xs. \<not> P x"
    using n(1,4) by (auto simp: xs_def in_set_conv_nth)
  have w_in: "w \<in> set defs"
    using S by (metis in_set_conv_decomp set_sort)
  have Pw: "P w" using n by simp
  have sorted: "sorted (map f (xs @ w # ys))"
    using S by (metis sorted_sort_key)
  have maxp: "\<forall>j\<in>set defs. P j \<longrightarrow> f w \<le> f j"
  proof (intro ballI impI)
    fix j assume "j \<in> set defs" "P j"
    then have "j \<in> set ?S" by simp
    with S noP \<open>P j\<close> have "j = w \<or> j \<in> set ys" by auto
    with sorted show "f w \<le> f j" by (auto simp: sorted_append)
  qed
  have "filter (\<lambda>j. P j \<and> f j = f w) defs = filter P (filter (\<lambda>j. f j = f w) defs)"
    by (simp add: conj_commute)
  also have "\<dots> = filter P (filter (\<lambda>j. f j = f w) ?S)"
    by (simp only: sort_key_stable)
  also have "\<dots> = filter (\<lambda>j. P j \<and> f j = f w) (xs @ w # ys)"
    using S by (simp add: conj_commute)
  also have "\<dots> = w # filter (\<lambda>j. P j \<and> f j = f w) ys"
    using noP Pw by simp
  finally have "hd (filter (\<lambda>j. P j \<and> f j = f w) defs) = w" by simp
  with w_in Pw maxp show ?thesis by simp
qed

text \<open>
  Claim C3. The engine sorts its catalog once, when it is constructed
  (\<open>intents = rule_engine_init intent_defs\<close>); the matcher sorts nothing: on any list it
  returns the first intent, in the order of that list, that has a matching keyword, and
  stops there. With the logger below \<open>DEBUG\<close>, when some intent of the catalog has a
  keyword that matches the message, the matcher over the constructed list returns an
  intent \<open>w\<close> of the catalog with a matching keyword such that no intent with a matching
  keyword has a higher priority, and \<open>w\<close> is the first in definition order among the
  matching intents of its priority. With the logger enabled for \<open>DEBUG\<close> the same call
  raises \<open>KeyError\<close> instead of returning: there the code does not do what the claim says.
\<close>

theorem match_intent_priority_order:
  "match_intent False U xs msg = Inr (find (\<lambda>j. keyword_hit U (kwords j) msg) xs)
   \<and> intents = rule_engine_init intent_defs
   \<and> (i \<in> set defs \<and> keyword_hit U (kwords i) msg \<longrightarrow>
        (\<exists>w. match_intent False U (rule_engine_init defs) msg = Inr (Some w)
           \<and> w \<in> set defs \<and> keyword_hit U (kwords w) msg
           \<and> (\<forall>j\<in>set defs. keyword_hit U (kwords j) msg \<longrightarrow> priority j \<le> priority w)
           \<and> w = hd (filter (\<lambda>j. keyword_hit U (kwords j) msg \<and> priority j = priority w) defs))
        \<and> match_intent True U (rule_engine_init defs) msg = Inl KeyError)"
proof (intro conjI impI)
  show "match_intent False U xs msg = Inr (find (\<lambda>j. keyword_hit U (kwords j) msg) xs)"
    by (simp add: match_intent_find split: option.splits)
next
  show "intents = rule_engine_init intent_defs" by (rule intents_def)
next
  assume a: "i \<in> set defs \<and> keyword_hit U (kwords i) msg"
  let ?P = "\<lambda>i. keyword_hit U (kwords i) msg"
  let ?f = "\<lambda>x::intent_def. - priority x"
  have "i \<in> set (sort_key ?f defs)" using a by simp
  then obtain w where w: "find ?P (sort_key ?f defs) = Some w"
    using find_exists [of i _ ?P] a by blast
  from first_of_stable_sort [OF w]
  have "w \<in> set defs" "?P w" "\<forall>j\<in>set defs. ?P j \<longrightarrow> priority j \<le> priority w"
    "w = hd (filter (\<lambda>j. ?P j \<and> priority j = priority w) defs)"
    by simp_all
  moreover have "match_intent False U (rule_engine_init defs) msg = Inr (Some w)"
    using w by (simp add: match_intent_find rule_engine_init_def)
  ultimately show "\<exists>w. match_intent False U (rule_engine_init defs) msg = Inr (Some w)
           \<and> w \<in> set defs \<and> keyword_hit U (kwords w) msg
           \<and> (\<forall>j\<in>set defs. keyword_hit U (kwords j) msg \<longrightarrow> priority j \<le> priority w)
           \<and> w = hd (filter (\<lambda>j. keyword_hit U (kwords j) msg \<and> priority j = priority w) defs)"
    by blast
  show "match_intent True U (rule_engine_init defs) msg = Inl KeyError"
    using w by (simp add: match_intent_find rule_engine_init_def)
qed

lemma human_support_hit:
  "keyword_hit latin1 (kwords intent_human_support) (u ''hej support'')"
  by (simp add: intent_human_support_def re_search_word_def occurs_at_def word_boundary_def
      u_def latin1_def latin1_word_def latin1_lower_char_def)

lemma greeting_hit:
  "keyword_hit latin1 (kwords intent_greeting) (u ''hej support'')"
  by (simp add: intent_greeting_def re_search_word_def occurs_at_def word_boundary_def
      u_def latin1_def latin1_word_def latin1_lower_char_def)

lemma human_support_in_catalog: "intent_human_support \<in> set intent_defs"
  by (simp add: intent_defs_def)

lemma top_priority_is_human_support:
  "w \<in> set intent_defs \<Longrightarrow> priority intent_human_support \<le> priority w \<Longrightarrow> w = intent_human_support"
  by (auto simp: intent_defs_def catalog_defs)

text \<open>
  The message "hej support" holds keywords of \<open>greeting\<close> (priority 1), \<open>help\<close>
  (priority 2) and \<open>human_support\<close> (priority 3). At the default log level the matcher
  returns \<open>human_support\<close> from the engine's list, and \<open>greeting\<close>, the first in
  definition order, from the unsorted catalog; with the logger enabled for \<open>DEBUG\<close> it
  raises.
\<close>

theorem match_intent_priority_order_witness:
  "intent_human_support \<in> set intent_defs
   \<and> keyword_hit latin1 (kwords intent_human_support) (u ''hej support'')
   \<and> match_intent False latin1 intents (u ''hej support'') = Inr (Some intent_human_support)
   \<and> match_intent False latin1 intent_defs (u ''hej support'') = Inr (Some intent_greeting)
   \<and> match_intent True latin1 intents (u ''hej support'') = Inl KeyError"
proof -
  note h = human_support_in_catalog human_support_hit
  note t = match_intent_priority_order [of latin1 _ "u ''hej support''" intent_human_support intent_defs]
  from t h obtain w where w:
    "match_intent False latin1 (rule_engine_init intent_defs) (u ''hej support'') = Inr (Some w)"
    "w \<in> set intent_defs"
    "\<forall>j\<in>set intent_defs. keyword_hit latin1 (kwords j) (u ''hej support'') \<longrightarrow> priority j \<le> priority w"
    by blast
  from w(3) h have "priority intent_human_support \<le> priority w" by blast
  with w(2) have "w = intent_human_support" by (rule top_priority_is_human_support)
  with w(1) have 1: "match_intent False latin1 intents (u ''hej support'') = Inr (Some intent_human_support)"
    by (simp add: intents_def)
  from t h have 2: "match_intent True latin1 intents (u ''hej support'') = Inl KeyError"
    by (simp add: intents_def)
  have "find (\<lambda>j. keyword_hit latin1 (kwords j) (u ''hej support'')) intent_defs = Some intent_greeting"
    using greeting_hit by (simp add: intent_defs_def)
  with match_intent_priority_order [of latin1 intent_defs "u ''hej support''"]
  have 3: "match_intent False latin1 intent_defs (u ''hej support'') = Inr (Some intent_greeting)"
    by simp
  from h 1 2 3 show ?thesis by simp
qed

lemma re_search_word_occurs:
  "re_search_word U k s \<longleftrightarrow> (\<exists>p. p + length k \<le> length s \<and> occurs_at U k s p)"
proof
  assume "re_search_word U k s"
  then obtain p where "p < Suc (length s) - length k" "occurs_at U k s p"
    by (auto simp: re_search_word_def list_ex_iff)
  moreover from this have "p + length k \<le> length s" by linarith
  ultimately show "\<exists>p. p + length k \<le> length s \<and> occurs_at U k s p" by blast
next
  assume "\<exists>p. p + length k \<le> length s \<and> occurs_at U k s p"
  then obtain p where "p + length k \<le> length s" "occurs_at U k s p" by blast
  moreover from this have "p < Suc (length s) - length k" by linarith
  ultimately show "re_search_word U k s"
    by (auto simp: re_search_word_def list_ex_iff)
qed

lemma occurs_at_split:
  assumes "occurs_at U k s p" "p + length k \<le> length s"
  shows "s = take p s @ k @ drop (p + length k) s"
proof -
  have "take (length k) (drop p s) = k" using assms by (simp add: occurs_at_def)
  then have "drop p s = k @ drop (length k) (drop p s)"
    by (metis append_take_drop_id)
  then have "s = take p s @ k @ drop (length k) (drop p s)"
    by (metis append_take_drop_id)
  then show ?thesis by (simp add: add.commute)
qed

lemma catalog_keywords_word_edged:
  "\<forall>i\<in>set intent_defs. \<forall>kw\<in>set (kwords i).
     uni_lower latin1 kw = kw \<and> kw \<noteq> [] \<and> uni_word latin1 (hd kw) \<and> uni_word latin1 (last kw)"
  unfolding intent_defs_def
  by (simp add: catalog_defs u_def latin1_def latin1_word_def latin1_lower_char_def)

lemma booking_keywords_on_bookshelf:
  "\<not> keyword_hit latin1 (kwords intent_booking) (normalize latin1 (u ''bookshelf''))"
  by (simp add: intent_booking_def normalize_def strip_punctuation_def py_split_def
      re_search_word_def occurs_at_def word_boundary_def u_def latin1_def latin1_word_def
      py_space_def latin1_lower_char_def)

text \<open>
  Claim C7. A keyword that begins and ends with a word character is found in a message
  only at an occurrence that has no word character directly before it and none directly
  after it: the message is \<open>pre @ k @ post\<close> where \<open>pre\<close> is empty or ends with a
  non-word character and \<open>post\<close> is empty or begins with one. Every keyword of the
  catalog is in lower case, begins with a word character and ends with one. No keyword of
  the \<open>booking\<close> intent is found in "bookshelf".
\<close>

theorem keyword_match_whole_word:
  "(re_search_word U k s \<and> k \<noteq> [] \<and> uni_word U (hd k) \<and> uni_word U (last k) \<longrightarrow>
      (\<exists>pre post. s = pre @ k @ post
         \<and> (pre = [] \<or> \<not> uni_word U (last pre)) \<and> (post = [] \<or> \<not> uni_word U (hd post))))
   \<and> (\<forall>i\<in>set intent_defs. \<forall>kw\<in>set (kwords i).
         uni_lower latin1 kw = kw \<and> kw \<noteq> [] \<and> uni_word latin1 (hd kw) \<and> uni_word latin1 (last kw))
   \<and> \<not> keyword_hit latin1 (kwords intent_booking) (normalize latin1 (u ''bookshelf''))"
proof (intro conjI impI)
  assume a: "re_search_word U k s \<and> k \<noteq> [] \<and> uni_word U (hd k) \<and> uni_word U (last k)"
  then have m: "re_search_word U k s" and ne: "k \<noteq> []"
    and h: "uni_word U (hd k)" and l: "uni_word U (last k)" by simp_all
  from m obtain p where p: "p + length k \<le> length s" and occ: "occurs_at U k s p"
    by (auto simp: re_search_word_occurs)
  let ?pre = "take p s" and ?post = "drop (p + length k) s"
  have s: "s = ?pre @ k @ ?post" using occurs_at_split [OF occ p] .
  have lenk: "0 < length k" using ne by simp
  have tk: "take (length k) (drop p s) = k" using occ by (simp add: occurs_at_def)
  have sp: "s ! p = hd k"
  proof -
    have "hd k = k ! 0" using ne by (simp add: hd_conv_nth)
    also have "\<dots> = take (length k) (drop p s) ! 0" using tk by simp
    also have "\<dots> = s ! p" using lenk p by simp
    finally show ?thesis by simp
  qed
  have sl: "s ! (p + length k - 1) = last k"
  proof -
    have "last k = k ! (length k - 1)" using ne by (simp add: last_conv_nth)
    also have "\<dots> = take (length k) (drop p s) ! (length k - 1)" using tk by simp
    also have "\<dots> = s ! (p + (length k - 1))" using lenk p by simp
    finally show ?thesis using lenk by simp
  qed
  have b1: "word_boundary U s p" and b2: "word_boundary U s (p + length k)"
    using occ by (simp_all add: occurs_at_def)
  have plt: "p < length s" using p lenk by linarith
  with b1 sp h have pre: "\<not> (0 < p \<and> uni_word U (s ! (p - 1)))"
    by (auto simp: word_boundary_def)
  have "?pre = [] \<or> \<not> uni_word U (last ?pre)"
  proof (cases "p = 0")
    case True then show ?thesis by simp
  next
    case False
    then have "?pre \<noteq> []" and "length ?pre = p" using plt by auto
    then have "last ?pre = ?pre ! (p - 1)" by (simp add: last_conv_nth)
    also have "\<dots> = s ! (p - 1)" using False by simp
    finally have "last ?pre = s ! (p - 1)" .
    with pre False show ?thesis by simp
  qed
  moreover
  from b2 sl l lenk p have post: "\<not> (p + length k < length s \<and> uni_word U (s ! (p + length k)))"
    by (auto simp: word_boundary_def)
  have "?post = [] \<or> \<not> uni_word U (hd ?post)"
  proof (cases "p + length k < length s")
    case True
    then have "hd ?post = s ! (p + length k)" by (simp add: hd_drop_conv_nth)
    with post True show ?thesis by simp
  next
    case False then show ?thesis by simp
  qed
  ultimately show "\<exists>pre post. s = pre @ k @ post
         \<and> (pre = [] \<or> \<not> uni_word U (last pre)) \<and> (post = [] \<or> \<not> uni_word U (hd post))"
    using s by blast
next
  show "\<forall>i\<in>set intent_defs. \<forall>kw\<in>set (kwords i).
         uni_lower latin1 kw = kw \<and> kw \<noteq> [] \<and> uni_word latin1 (hd kw) \<and> uni_word latin1 (last kw)"
    by (rule catalog_keywords_word_edged)
next
  show "\<not> keyword_hit latin1 (kwords intent_booking) (normalize latin1 (u ''bookshelf''))"
    by (rule booking_keywords_on_bookshelf)
qed

text \<open>The keyword "book" in "book en tid": found at the start, followed by a space.\<close>

theorem keyword_match_whole_word_witness:
  "re_search_word latin1 (u ''book'') (u ''book en tid'') \<and> u ''book'' \<noteq> []
   \<and> uni_word latin1 (hd (u ''book'')) \<and> uni_word latin1 (last (u ''book''))
   \<and> (\<exists>pre post. u ''book en tid'' = pre @ u ''book'' @ post
         \<and> (pre = [] \<or> \<not> uni_word latin1 (last pre))
         \<and> (post = [] \<or> \<not> uni_word latin1 (hd post)))"
proof -
  have h: "re_search_word latin1 (u ''book'') (u ''book en tid'') \<and> u ''book'' \<noteq> []
     \<and> uni_word latin1 (hd (u ''book'')) \<and> uni_word latin1 (last (u ''book''))"
    by (simp add: re_search_word_def occurs_at_def word_boundary_def u_def latin1_def
        latin1_word_def)
  with keyword_match_whole_word [of latin1 "u ''book''" "u ''book en tid''"]
  show ?thesis by blast
qed

section \<open>Properties of the usage gate\<close>

text \<open>
  Claim C1. \<open>check_rate_limit\<close> on an unknown tenant answers \<open>False\<close> and changes
  nothing; on a tenant whose counter has reached its limit it answers \<open>False\<close> and changes
  nothing; on a tenant below its limit it answers \<open>True\<close> and the only change is that this
  tenant's counter is one higher. With a limit of one and a counter at zero, two calls in
  sequence answer \<open>True\<close>, then \<open>False\<close>.
\<close>

theorem check_rate_limit_spec:
  "(clients w cid = None \<longrightarrow> check_rate_limit cid w = (False, w))
   \<and> (\<forall>c. clients w cid = Some c \<and> ai_requests_today c \<ge> ai_requests_limit c \<longrightarrow>
         check_rate_limit cid w = (False, w))
   \<and> (\<forall>c. clients w cid = Some c \<and> ai_requests_today c < ai_requests_limit c \<longrightarrow>
         check_rate_limit cid w =
           (True, w\<lparr>clients := (clients w)(cid \<mapsto> c\<lparr>ai_requests_today := ai_requests_today c + 1\<rparr>)\<rparr>)
         \<and> requests_used (snd (check_rate_limit cid w)) cid = requests_used w cid + 1
         \<and> (\<forall>other. other \<noteq> cid \<longrightarrow>
               clients (snd (check_rate_limit cid w)) other = clients w other))
   \<and> (\<forall>c. clients w cid = Some c \<and> ai_requests_today c = 0 \<and> ai_requests_limit c = 1 \<longrightarrow>
         fst (check_rate_limit cid w) = True
         \<and> fst (check_rate_limit cid (snd (check_rate_limit cid w))) = False
         \<and> snd (check_rate_limit cid (snd (check_rate_limit cid w))) = snd (check_rate_limit cid w))"
  by (auto simp: check_rate_limit_def requests_used_def)

theorem check_rate_limit_spec_witness:
  "clients world1 (u ''nobody'') = None
   \<and> check_rate_limit (u ''nobody'') world1 = (False, world1)
   \<and> clients world1_spent (u ''kunde1'') = Some kunde1_spent
   \<and> ai_requests_today kunde1_spent \<ge> ai_requests_limit kunde1_spent
   \<and> check_rate_limit (u ''kunde1'') world1_spent = (False, world1_spent)
   \<and> clients world1 (u ''kunde1'') = Some kunde1
   \<and> ai_requests_today kunde1 < ai_requests_limit kunde1
   \<and> ai_requests_today kunde1 = 0 \<and> ai_requests_limit kunde1 = 1
   \<and> check_rate_limit (u ''kunde1'') world1 = (True, world1_spent)
   \<and> fst (check_rate_limit (u ''kunde1'') (snd (check_rate_limit (u ''kunde1'') world1))) = False"
proof -
  have a: "clients world1 (u ''nobody'') = None"
    by (simp add: world1_def u_def)
  have b: "clients world1_spent (u ''kunde1'') = Some kunde1_spent
      \<and> ai_requests_today kunde1_spent \<ge> ai_requests_limit kunde1_spent"
    by (simp add: world1_spent_def world1_def kunde1_spent_def kunde1_def)
  have c: "clients world1 (u ''kunde1'') = Some kunde1
      \<and> ai_requests_today kunde1 < ai_requests_limit kunde1
      \<and> ai_requests_today kunde1 = 0 \<and> ai_requests_limit kunde1 = 1"
    by (simp add: world1_def kunde1_def)
  have d: "world1\<lparr>clients := (clients world1)(u ''kunde1'' \<mapsto>
             kunde1\<lparr>ai_requests_today := ai_requests_today kunde1 + 1\<rparr>)\<rparr> = world1_spent"
    by (simp add: world1_spent_def world1_def kunde1_spent_def kunde1_def)
  from a check_rate_limit_spec [of world1 "u ''nobody''"]
  have 1: "check_rate_limit (u ''nobody'') world1 = (False, world1)" by blast
  from b check_rate_limit_spec [of world1_spent "u ''kunde1''"]
  have 2: "check_rate_limit (u ''kunde1'') world1_spent = (False, world1_spent)" by blast
  from c check_rate_limit_spec [of world1 "u ''kunde1''"]
  have 3: "check_rate_limit (u ''kunde1'') world1 =
      (True, world1\<lparr>clients := (clients world1)(u ''kunde1'' \<mapsto>
             kunde1\<lparr>ai_requests_today := ai_requests_today kunde1 + 1\<rparr>)\<rparr>)"
    and 4: "fst (check_rate_limit (u ''kunde1'') (snd (check_rate_limit (u ''kunde1'') world1))) = False"
    by blast+
  from a b c 1 2 3 4 d show ?thesis by simp
qed

section \<open>The paths of the orchestrator\<close>

lemma events_log_event [simp]: "events (log_event e w) = events w @ [e]"
  and clients_log_event [simp]: "clients (log_event e w) = clients w"
  and messages_log_event [simp]: "messages (log_event e w) = messages w"
  and conversations_log_event [simp]: "conversations (log_event e w) = conversations w"
  by (simp_all add: log_event_def)

lemma ai_get_response_eq:
  "ai_get_response U E m cid kb h \<lparr>info_company_name = Some (company_name c), info_website_url = website_url c\<rparr> w =
     (ai_outcome U (ai_request_for cid c m h kb) (complete E (ai_request_for cid c m h kb)),
      log_event (AICalled (ai_request_for cid c m h kb)) w)"
  by (simp add: ai_get_response_def ai_outcome_def ai_request_for_def send_message_def Let_def canned_def
      split: option.splits)

lemma save_turns_cases:
  "save_turns E conv m rd w = (r, w') \<Longrightarrow>
     clients w' = clients w \<and> conversations w' = conversations w \<and>
     ((fails E SaveTurns \<and> r = Inl Error \<and> events w' = events w @ [StoreFailed SaveTurns]
         \<and> messages w' = messages w)
      \<or> (\<not> fails E SaveTurns \<and> r = Inr rd \<and> events w' = events w))"
  by (auto simp: save_turns_def store_raises_def Let_def split: if_splits)

lemma ai_attempt_cases:
  assumes "ai_attempt U E req c conv m h w = (r, w')"
    and "clients w (req_client_id req) = Some c"
  shows
   "(fails E GateStore \<and> r = Inl Error \<and> events w' = events w @ [StoreFailed GateStore]
       \<and> clients w' = clients w)
  \<or> (\<not> fails E GateStore \<and> ai_requests_limit c \<le> ai_requests_today c
       \<and> r = Inr (canned quota_exceeded_reply)
       \<and> events w' = events w @ [GateChecked (req_client_id req) False]
       \<and> clients w' = clients w \<and> messages w' = messages w)
  \<or> (\<not> fails E GateStore \<and> ai_requests_today c < ai_requests_limit c 
       \<and> clients w' = (clients w)(req_client_id req \<mapsto> c\<lparr>ai_requests_today := ai_requests_today c + 1\<rparr>)
       \<and> ((fails E KnowledgeStore \<and> r = Inl Error
             \<and> events w' = events w @ [GateChecked (req_client_id req) True, StoreFailed KnowledgeStore])
          \<or> (\<not> fails E KnowledgeStore
              \<and> (\<exists>q. q = ai_request_for (req_client_id req) c m h (knowledge_texts E (req_client_id req))
                  \<and> ((fails E SaveTurns \<and> r = Inl Error
                        \<and> events w' = events w @ [GateChecked (req_client_id req) True,
                              KnowledgeFetched (req_client_id req), AICalled q, StoreFailed SaveTurns])
                     \<or> (\<not> fails E SaveTurns \<and> r = Inr (ai_outcome U q (complete E q))
                        \<and> events w' = events w @ [GateChecked (req_client_id req) True,
                              KnowledgeFetched (req_client_id req), AICalled q]))))))"
  using assms
  unfolding ai_attempt_def call_check_rate_limit_def get_knowledge_texts_def store_raises_def
    ai_get_response_eq
  by (auto split: if_splits prod.splits dest!: save_turns_cases
      simp: check_rate_limit_def split: option.splits)

lemma rule_get_response_Inl:
  "rule_get_response dbg U m cid = Inl e \<Longrightarrow> e = KeyError \<and> dbg"
  by (auto simp: rule_get_response_def match_intent_find split: if_splits option.splits)

lemma rule_get_response_fallback:
  "rule_get_response dbg U m cid = Inr rd \<Longrightarrow> is_fallback rd \<Longrightarrow> m \<noteq> [] \<Longrightarrow>
     rd = canned engine_fallback_reply"
  by (auto simp: rule_get_response_def match_intent_find canned_def split: if_splits option.splits)

lemma respond_cases:
  assumes "respond U E req c conv m h w = (r, w')" and "m \<noteq> []"
  shows
   "(rule_get_response (debug_logging E) U m (req_client_id req) = Inl KeyError
       \<and> debug_logging E \<and> r = Inl KeyError \<and> w' = w)
  \<or> (\<exists>rd. rule_get_response (debug_logging E) U m (req_client_id req) = Inr rd
       \<and> \<not> is_fallback rd \<and> save_turns E conv m rd w = (r, w'))
  \<or> (rule_get_response (debug_logging E) U m (req_client_id req) = Inr (canned engine_fallback_reply)
       \<and> \<not> (req_use_ai req \<and> use_ai c)
       \<and> save_turns E conv m (canned final_fallback_reply) w = (r, w'))
  \<or> (rule_get_response (debug_logging E) U m (req_client_id req) = Inr (canned engine_fallback_reply)
       \<and> req_use_ai req \<and> use_ai c
       \<and> ai_attempt U E req c conv m h w = (r, w'))"
proof (cases "rule_get_response (debug_logging E) U m (req_client_id req)")
  case (Inl e)
  with rule_get_response_Inl [OF Inl] assms(1) show ?thesis
    by (auto simp: respond_def)
next
  case (Inr rd)
  show ?thesis
  proof (cases "is_fallback rd")
    case True
    with rule_get_response_fallback [OF Inr True assms(2)] Inr assms(1) show ?thesis
      by (auto simp: respond_def split: if_splits)
  next
    case False
    with Inr assms(1) show ?thesis by (auto simp: respond_def)
  qed
qed

lemma get_or_create_conversation_cases:
  assumes "get_or_create_conversation E req w = (r, w')"
  shows "clients w' = clients w \<and> messages w' = messages w \<and>
    ((\<exists>op. (op = ConversationLookup \<or> op = ConversationCreate) \<and> fails E op \<and> r = Inl Error
          \<and> events w' = events w @ [StoreFailed op])
     \<or> (\<exists>conv. r = Inr conv \<and> conv_id conv = session_conv_id req w \<and> events w' = events w))"
  using assms
  by (auto simp: get_or_create_conversation_def store_raises_def session_conv_id_def Let_def
      split: if_splits option.splits)

lemma get_history_cases:
  assumes "get_history E conv w = (r, w')"
  shows "clients w' = clients w \<and> messages w' = messages w \<and>
    ((fails E HistoryQuery \<and> r = Inl Error \<and> events w' = events w @ [StoreFailed HistoryQuery])
     \<or> (\<not> fails E HistoryQuery
         \<and> r = Inr (map turn_of (rev (take 10 (rev (filter (\<lambda>x. conversation_id x = conv_id conv) (messages w))))))
         \<and> events w' = events w @ [HistoryRead (conv_id conv)]))"
  using assms
  by (auto simp: get_history_def store_raises_def previous_messages_def split: if_splits)



text \<open>Every run of the \<open>try\<close> block takes one of fourteen paths; \<open>m\<close> is the stripped
  message, \<open>k\<close> the conversation, \<open>rr\<close> the outcome of the rule engine.\<close>

lemma chat_try_trace [consumes 1, case_names empty too_long unknown_client inactive_client
    store_down rule_raised rule_hit final_fallback save_down gate_down gate_denied
    knowledge_down ai_save_down ai_called]:
  fixes U E req w
  defines "m \<equiv> py_strip U (req_message req)"
    and "cid \<equiv> req_client_id req"
    and "k \<equiv> session_conv_id req w"
  defines "rr \<equiv> rule_get_response (debug_logging E) U m cid"
  assumes run: "chat_try U E req w = (r, w')"
  obtains
    (empty) "m = []" "r = Inr (canned write_something_reply)" "w' = w"
  | (too_long) "m \<noteq> []" "1000 < length m" "r = Inr (canned too_long_reply)" "w' = w"
  | (unknown_client) "m \<noteq> []" "length m \<le> 1000" "\<not> fails E ClientLookup" "clients w cid = None"
      "r = Inl (HTTPException 404 (u ''Client not found''))" "w' = w"
  | (inactive_client) c where "m \<noteq> []" "length m \<le> 1000" "\<not> fails E ClientLookup" "clients w cid = Some c"
      "\<not> is_active c" "r = Inl (HTTPException 403 (u ''Client is not active''))" "w' = w"
  | (store_down) op where "m \<noteq> []" "length m \<le> 1000"
      "op = ClientLookup \<or> op = ConversationLookup \<or> op = ConversationCreate \<or> op = HistoryQuery"
      "op = ClientLookup \<or> \<not> fails E ClientLookup \<and> (\<exists>c. clients w cid = Some c \<and> is_active c)"
      "fails E op" "r = Inl Error" "events w' = events w @ [StoreFailed op]"
      "clients w' = clients w" "messages w' = messages w"
  | (rule_raised) c where "m \<noteq> []" "length m \<le> 1000" "clients w cid = Some c" "is_active c"
      "\<not> fails E ClientLookup" "\<not> fails E ConversationLookup" "\<not> fails E HistoryQuery"
      "rr = Inl KeyError" "debug_logging E" "r = Inl KeyError"
      "events w' = events w @ [HistoryRead k]" "clients w' = clients w" "messages w' = messages w"
  | (rule_hit) c rd where "m \<noteq> []" "length m \<le> 1000" "clients w cid = Some c" "is_active c"
      "\<not> fails E ClientLookup" "\<not> fails E ConversationLookup" "\<not> fails E HistoryQuery"
      "rr = Inr rd" "\<not> is_fallback rd" "\<not> fails E SaveTurns" "r = Inr rd"
      "events w' = events w @ [HistoryRead k]" "clients w' = clients w"
  | (final_fallback) c where "m \<noteq> []" "length m \<le> 1000" "clients w cid = Some c" "is_active c"
      "\<not> fails E ClientLookup" "\<not> fails E ConversationLookup" "\<not> fails E HistoryQuery"
      "rr = Inr (canned engine_fallback_reply)" "\<not> (req_use_ai req \<and> use_ai c)" "\<not> fails E SaveTurns"
      "r = Inr (canned final_fallback_reply)"
      "events w' = events w @ [HistoryRead k]" "clients w' = clients w"
  | (save_down) c where "m \<noteq> []" "length m \<le> 1000" "clients w cid = Some c" "is_active c"
      "\<not> fails E ClientLookup" "\<not> fails E ConversationLookup" "\<not> fails E HistoryQuery"
      "(\<exists>rd. rr = Inr rd \<and> \<not> is_fallback rd)
         \<or> rr = Inr (canned engine_fallback_reply) \<and> \<not> (req_use_ai req \<and> use_ai c)"
      "fails E SaveTurns" "r = Inl Error"
      "events w' = events w @ [HistoryRead k, StoreFailed SaveTurns]" "clients w' = clients w"
  | (gate_down) c where "m \<noteq> []" "length m \<le> 1000" "clients w cid = Some c" "is_active c"
      "\<not> fails E ClientLookup" "\<not> fails E ConversationLookup" "\<not> fails E HistoryQuery"
      "rr = Inr (canned engine_fallback_reply)" "req_use_ai req" "use_ai c" "fails E GateStore" "r = Inl Error"
      "events w' = events w @ [HistoryRead k, StoreFailed GateStore]" "clients w' = clients w"
  | (gate_denied) c where "m \<noteq> []" "length m \<le> 1000" "clients w cid = Some c" "is_active c"
      "\<not> fails E ClientLookup" "\<not> fails E ConversationLookup" "\<not> fails E HistoryQuery"
      "rr = Inr (canned engine_fallback_reply)" "req_use_ai req" "use_ai c" "\<not> fails E GateStore"
      "ai_requests_limit c \<le> ai_requests_today c" "r = Inr (canned quota_exceeded_reply)"
      "events w' = events w @ [HistoryRead k, GateChecked cid False]"
      "clients w' = clients w" "messages w' = messages w"
  | (knowledge_down) c where "m \<noteq> []" "length m \<le> 1000" "clients w cid = Some c" "is_active c"
      "\<not> fails E ClientLookup" "\<not> fails E ConversationLookup" "\<not> fails E HistoryQuery"
      "rr = Inr (canned engine_fallback_reply)" "req_use_ai req" "use_ai c" "\<not> fails E GateStore"
      "ai_requests_today c < ai_requests_limit c"
      "clients w' = (clients w)(cid \<mapsto> c\<lparr>ai_requests_today := ai_requests_today c + 1\<rparr>)"
      "fails E KnowledgeStore" "r = Inl Error"
      "events w' = events w @ [HistoryRead k, GateChecked cid True, StoreFailed KnowledgeStore]"
  | (ai_save_down) c q conv wc h wh where "m \<noteq> []" "length m \<le> 1000" "clients w cid = Some c" "is_active c"
      "\<not> fails E ClientLookup" "\<not> fails E ConversationLookup" "\<not> fails E HistoryQuery"
      "rr = Inr (canned engine_fallback_reply)" "req_use_ai req" "use_ai c" "\<not> fails E GateStore"
      "ai_requests_today c < ai_requests_limit c"
      "clients w' = (clients w)(cid \<mapsto> c\<lparr>ai_requests_today := ai_requests_today c + 1\<rparr>)"
      "\<not> fails E KnowledgeStore" "q = ai_request_for cid c m (map turn_of (rev (take 10 (rev (filter (\<lambda>x. conversation_id x = k) (messages w)))))) (knowledge_texts E cid)"
      "fails E SaveTurns" "r = Inl Error"
      "events w' = events w @ [HistoryRead k, GateChecked cid True, KnowledgeFetched cid,
         AICalled q, StoreFailed SaveTurns]"
      "get_or_create_conversation E req w = (Inr conv, wc)" "get_history E conv wc = (Inr h, wh)"
      "q = ai_request_for cid c m h (knowledge_texts E cid)"
  | (ai_called) c q conv wc h wh where "m \<noteq> []" "length m \<le> 1000" "clients w cid = Some c" "is_active c"
      "\<not> fails E ClientLookup" "\<not> fails E ConversationLookup" "\<not> fails E HistoryQuery"
      "rr = Inr (canned engine_fallback_reply)" "req_use_ai req" "use_ai c" "\<not> fails E GateStore"
      "ai_requests_today c < ai_requests_limit c"
      "clients w' = (clients w)(cid \<mapsto> c\<lparr>ai_requests_today := ai_requests_today c + 1\<rparr>)"
      "\<not> fails E KnowledgeStore" "q = ai_request_for cid c m (map turn_of (rev (take 10 (rev (filter (\<lambda>x. conversation_id x = k) (messages w)))))) (knowledge_texts E cid)"
      "\<not> fails E SaveTurns" "r = Inr (ai_outcome U q (complete E q))"
      "events w' = events w @ [HistoryRead k, GateChecked cid True, KnowledgeFetched cid,
         AICalled q]"
      "get_or_create_conversation E req w = (Inr conv, wc)" "get_history E conv wc = (Inr h, wh)"
      "q = ai_request_for cid c m h (knowledge_texts E cid)"
proof (cases "m = [] \<or> 1000 < length m \<or> fails E ClientLookup \<or> clients w cid = None
               \<or> (\<exists>c. clients w cid = Some c \<and> \<not> is_active c)")
  case True
  then consider "m = []" | "m \<noteq> []" "1000 < length m"
    | "m \<noteq> []" "length m \<le> 1000" "fails E ClientLookup"
    | "m \<noteq> []" "length m \<le> 1000" "\<not> fails E ClientLookup" "clients w cid = None"
    | c where "m \<noteq> []" "length m \<le> 1000" "\<not> fails E ClientLookup" "clients w cid = Some c"
        "\<not> is_active c"
    by (cases "m = []"; cases "1000 < length m"; cases "fails E ClientLookup") auto
  then show thesis
  proof cases
    case 1
    with run show thesis
      by (intro empty) (auto simp: m_def chat_try_def)
  next
    case 2
    with run show thesis
      by (intro too_long) (auto simp: m_def chat_try_def Let_def)
  next
    case 3
    with run show thesis
      by (intro store_down [of ClientLookup])
        (auto simp: m_def chat_try_def Let_def store_raises_def)
  next
    case 4
    with run show thesis
      by (intro unknown_client) (auto simp: m_def cid_def chat_try_def Let_def)
  next
    case 5
    with run show thesis
      by (intro inactive_client [of c]) (auto simp: m_def cid_def chat_try_def Let_def)
  qed
next
  case False
  then obtain c where c: "clients w cid = Some c" "is_active c" and
    v: "m \<noteq> []" "length m \<le> 1000" "\<not> fails E ClientLookup"
    by (cases "clients w cid") auto
  obtain rc wc where goc: "get_or_create_conversation E req w = (rc, wc)" by fastforce
  note gc = get_or_create_conversation_cases [OF goc]
  from run c v goc have run1:
    "(case rc of Inl e \<Rightarrow> (Inl e, wc)
      | Inr conv \<Rightarrow> (case get_history E conv wc of (Inl e, w2) \<Rightarrow> (Inl e, w2)
          | (Inr h, w2) \<Rightarrow> respond U E req c conv m h w2)) = (r, w')"
    unfolding m_def cid_def chat_try_def Let_def by simp
  show thesis
  proof (cases rc)
    case (Inl e)
    with gc obtain op where op: "op = ConversationLookup \<or> op = ConversationCreate" "fails E op"
      "e = Error" "events wc = events w @ [StoreFailed op]" by auto
    from Inl run1 have "r = Inl e" "w' = wc" by simp_all
    with op gc v c show thesis
      by (intro store_down [of op]) auto
  next
    case (Inr conv)
    with gc have fc: "conv_id conv = k" by (simp add: k_def)
    from Inr gc have wc: "clients wc = clients w" "messages wc = messages w" "events wc = events w"
      by auto
    have nfl: "\<not> fails E ConversationLookup"
      using goc Inr by (auto simp: get_or_create_conversation_def store_raises_def split: if_splits)
    obtain rh wh where gh: "get_history E conv wc = (rh, wh)" by fastforce
    note hc = get_history_cases [OF gh]
    show thesis
    proof (cases rh)
      case (Inl e)
      with hc have "fails E HistoryQuery" "e = Error" "events wh = events wc @ [StoreFailed HistoryQuery]"
        "clients wh = clients wc" "messages wh = messages wc" by auto
      moreover from Inl run1 Inr gh have "r = Inl e" "w' = wh" by simp_all
      ultimately show thesis using wc v c
        by (intro store_down [of HistoryQuery]) auto
    next
      case (Inr h)
      with hc wc fc have wh: "clients wh = clients w" "messages wh = messages w"
        "events wh = events w @ [HistoryRead k]"
        and nfh: "\<not> fails E HistoryQuery"
        and h: "h = map turn_of (rev (take 10 (rev (filter (\<lambda>x. conversation_id x = k) (messages w)))))"
        by auto
      from run1 \<open>rc = Inr conv\<close> gh Inr have resp: "respond U E req c conv m h wh = (r, w')"
        by simp
      note served = v(1,2) c v(3) nfl nfh
      have rr: "rule_get_response (debug_logging E) U m (req_client_id req) = rr"
        by (simp add: rr_def cid_def)
      from respond_cases [OF resp v(1)] show thesis unfolding rr
      proof (elim disjE conjE exE)
        assume a: "rr = Inl KeyError" "debug_logging E" "r = Inl KeyError" "w' = wh"
        with wh show thesis by (intro rule_raised [OF served]) auto
      next
        fix rd
        assume a: "rr = Inr rd" "\<not> is_fallback rd" "save_turns E conv m rd wh = (r, w')"
        from save_turns_cases [OF a(3)] show thesis
        proof (elim disjE conjE)
          assume "fails E SaveTurns" "r = Inl Error" "events w' = events wh @ [StoreFailed SaveTurns]"
            "clients w' = clients wh"
          with wh a(1,2) show thesis by (intro save_down [OF served]) auto
        next
          assume "\<not> fails E SaveTurns" "r = Inr rd"
            "events w' = events wh" "clients w' = clients wh"
          with wh a(1,2) show thesis by (intro rule_hit [OF served, of rd]) auto
        qed
      next
        assume a: "rr = Inr (canned engine_fallback_reply)"
          "\<not> (req_use_ai req \<and> use_ai c)"
          "save_turns E conv m (canned final_fallback_reply) wh = (r, w')"
        from save_turns_cases [OF a(3)] show thesis
        proof (elim disjE conjE)
          assume "fails E SaveTurns" "r = Inl Error" "events w' = events wh @ [StoreFailed SaveTurns]"
            "clients w' = clients wh"
          with wh a(1,2) show thesis by (intro save_down [OF served]) auto
        next
          assume "\<not> fails E SaveTurns" "r = Inr (canned final_fallback_reply)"
            "events w' = events wh" "clients w' = clients wh"
          with wh a(1,2) show thesis by (intro final_fallback [OF served]) auto
        qed
      next
        assume a: "rr = Inr (canned engine_fallback_reply)"
          "req_use_ai req" "use_ai c"
          "ai_attempt U E req c conv m h wh = (r, w')"
        have "clients wh (req_client_id req) = Some c" using c wh by (simp add: cid_def)
        note ac = ai_attempt_cases [OF a(4) this, folded cid_def]
        note aip = served a(1,2,3)
        have goc': "get_or_create_conversation E req w = (Inr conv, wc)"
          using goc \<open>rc = Inr conv\<close> by simp
        have gh': "get_history E conv wc = (Inr h, wh)" using gh Inr by simp
        from ac show thesis
        proof (elim disjE conjE exE)
          assume "fails E GateStore" "r = Inl Error" "events w' = events wh @ [StoreFailed GateStore]"
            "clients w' = clients wh"
          with wh show thesis by (intro gate_down [OF aip]) auto
        next
          assume "\<not> fails E GateStore" "ai_requests_limit c \<le> ai_requests_today c"
            "r = Inr (canned quota_exceeded_reply)" "events w' = events wh @ [GateChecked cid False]"
            "clients w' = clients wh" "messages w' = messages wh"
          with wh show thesis by (intro gate_denied [OF aip]) auto
        next
          assume "\<not> fails E GateStore" "ai_requests_today c < ai_requests_limit c"
            "clients w' = (clients wh)(cid \<mapsto> c\<lparr>ai_requests_today := ai_requests_today c + 1\<rparr>)"
            "fails E KnowledgeStore" "r = Inl Error"
            "events w' = events wh @ [GateChecked cid True, StoreFailed KnowledgeStore]"
          with wh show thesis by (intro knowledge_down [OF aip]) auto
        next
          fix q
          assume "\<not> fails E GateStore" "ai_requests_today c < ai_requests_limit c"
            "clients w' = (clients wh)(cid \<mapsto> c\<lparr>ai_requests_today := ai_requests_today c + 1\<rparr>)"
            "\<not> fails E KnowledgeStore"
            "q = ai_request_for cid c m h (knowledge_texts E cid)"
            "fails E SaveTurns" "r = Inl Error"
            "events w' = events wh @ [GateChecked cid True, KnowledgeFetched cid, AICalled q,
               StoreFailed SaveTurns]"
          with wh h goc' gh' show thesis by (intro ai_save_down [OF aip, of q conv wc h wh]) auto
        next
          fix q
          assume "\<not> fails E GateStore" "ai_requests_today c < ai_requests_limit c"
            "clients w' = (clients wh)(cid \<mapsto> c\<lparr>ai_requests_today := ai_requests_today c + 1\<rparr>)"
            "\<not> fails E KnowledgeStore"
            "q = ai_request_for cid c m h (knowledge_texts E cid)"
            "\<not> fails E SaveTurns" "r = Inr (ai_outcome U q (complete E q))"
            "events w' = events wh @ [GateChecked cid True, KnowledgeFetched cid, AICalled q]"
          with wh h goc' gh' show thesis by (intro ai_called [OF aip, of q conv wc h wh]) auto
        qed
      qed
    qed
  qed
qed

lemma chat_run:
  assumes "chat U E req w = (r, w')"
  obtains r0 where "chat_try U E req w = (r0, w')" and "r = handlers r0"
  using assms by (auto simp: chat_def split: prod.splits)

lemma new_events_append: "events w' = events w @ es \<Longrightarrow> new_events w w' = es"
  by (simp add: new_events_def)

lemma new_events_same [simp]: "new_events w w = []"
  by (simp add: new_events_def)

lemma handlers_simps [simp]:
  "handlers (Inr rd) = Inr rd"
  "handlers (Inl Error) = Inr (canned internal_error_reply)"
  "handlers (Inl KeyError) = Inr (canned internal_error_reply)"
  "handlers (Inl (HTTPException code detail)) = Inl (HTTPException code detail)"
  by (simp_all add: handlers_def)

section \<open>Evaluating the pipeline on concrete requests\<close>

lemma dropWhile_all: "\<forall>c\<in>set s. P c \<Longrightarrow> dropWhile P s = []"
  by (induction s) auto

lemma dropWhile_keeps: "xs \<noteq> [] \<Longrightarrow> \<not> P (hd xs) \<Longrightarrow> dropWhile P xs = xs"
  by (cases xs) auto

lemma py_strip_blank: "\<forall>c\<in>set s. uni_space U c \<Longrightarrow> py_strip U s = []"
  by (simp add: py_strip_def dropWhile_all)

lemma py_strip_padded:
  assumes "s \<noteq> []" "\<not> uni_space U (hd s)" "\<not> uni_space U (last s)" "uni_space U sp"
  shows "py_strip U (s @ replicate n sp) = s"
proof -
  have 1: "dropWhile (uni_space U) (s @ replicate n sp) = s @ replicate n sp"
    using assms by (intro dropWhile_keeps) auto
  have 0: "dropWhile (uni_space U) (rev s) = rev s"
    using assms by (intro dropWhile_keeps) (auto simp: hd_rev)
  have 2: "dropWhile (uni_space U) (replicate n sp @ rev s) = rev s"
    using assms(4) 0 by (induction n) auto
  show ?thesis by (simp add: py_strip_def 1 2)
qed

lemma intents_sorted:
  "intents = [intent_human_support, intent_opening_hours, intent_prices, intent_booking,
     intent_contact, intent_location, intent_services, intent_shipping, intent_returns,
     intent_order_status, intent_payments, intent_help, intent_greeting, intent_goodbye]"
  unfolding intents_def rule_engine_init_def intent_defs_def
  by (simp add: catalog_defs)

lemma set_intents: "set intents = set intent_defs"
  by (simp add: intents_def rule_engine_init_def)

lemma strip_xyz: "py_strip latin1 (u ''xyz'') = u ''xyz''"
  by (simp add: py_strip_def u_def latin1_def py_space_def)

lemma normalize_xyz: "normalize latin1 (u ''xyz'') = u ''xyz''"
  by (simp add: normalize_def strip_punctuation_def py_split_def match_defs)

lemma no_hit_xyz: "i \<in> set intent_defs \<Longrightarrow> \<not> keyword_hit latin1 (kwords i) (u ''xyz'')"
  unfolding intent_defs_def
  by (auto simp: catalog_defs match_defs)

lemma match_intent_none:
  "\<forall>i\<in>set xs. \<not> keyword_hit U (kwords i) msg \<Longrightarrow> match_intent dbg U xs msg = Inr None"
  by (induction xs) auto

lemma rule_xyz: "rule_get_response dbg latin1 (u ''xyz'') cid = Inr (canned engine_fallback_reply)"
proof -
  have "match_intent dbg latin1 intents (u ''xyz'') = Inr None"
    by (rule match_intent_none) (simp add: set_intents no_hit_xyz)
  moreover have "u ''xyz'' \<noteq> []" by (simp add: u_def)
  ultimately show ?thesis
    by (simp add: rule_get_response_def normalize_xyz canned_def)
qed

lemma normalize_hej: "normalize latin1 (u ''hej'') = u ''hej''"
  by (simp add: normalize_def strip_punctuation_def py_split_def match_defs)

lemma rule_hej:
  "rule_get_response False latin1 (u ''hej'') cid =
     Inr \<lparr>reply = response_template intent_greeting, intent = Some (u ''greeting''),
          is_ai = False, is_fallback = False, tokens_used = None\<rparr>"
  "rule_get_response True latin1 (u ''hej'') cid = Inl KeyError"
proof -
  have 1: "i \<in> set [intent_human_support, intent_opening_hours, intent_prices, intent_booking,
     intent_contact, intent_location, intent_services, intent_shipping, intent_returns,
     intent_order_status, intent_payments, intent_help] \<Longrightarrow> \<not> keyword_hit latin1 (kwords i) (u ''hej'')" for i
    by (auto simp: catalog_defs match_defs)
  have 2: "keyword_hit latin1 (kwords intent_greeting) (u ''hej'')"
    by (simp add: intent_greeting_def match_defs)
  have m: "match_intent dbg latin1 intents (u ''hej'') =
      (if dbg then Inl KeyError else Inr (Some intent_greeting))" for dbg
    unfolding intents_sorted using 1 2 by simp
  have n: "u ''hej'' \<noteq> []" by (simp add: u_def)
  have g: "name intent_greeting = u ''greeting''" by (simp add: intent_greeting_def)
  show "rule_get_response False latin1 (u ''hej'') cid =
     Inr \<lparr>reply = response_template intent_greeting, intent = Some (u ''greeting''),
          is_ai = False, is_fallback = False, tokens_used = None\<rparr>"
    using m [of False] n g by (simp add: rule_get_response_def normalize_hej)
  show "rule_get_response True latin1 (u ''hej'') cid = Inl KeyError"
    using m [of True] n by (simp add: rule_get_response_def normalize_hej)
qed

lemma xyz_facts:
  "py_strip latin1 (req_message req_xyz) = u ''xyz''" "u ''xyz'' \<noteq> []" "length (u ''xyz'') \<le> 1000"
  "\<not> 1000 < length (u ''xyz'')"
  "req_client_id req_xyz = u ''kunde1''" "req_use_ai req_xyz"
  "rule_get_response dbg latin1 (u ''xyz'') cid = Inr (canned engine_fallback_reply)"
  by (simp_all add: req_xyz_def strip_xyz rule_xyz) (simp_all add: u_def)

lemma kunde1_facts:
  "clients world1 (u ''kunde1'') = Some kunde1" "events world1 = []"
  "clients world1_spent (u ''kunde1'') = Some kunde1_spent" "events world1_spent = []"
  "is_active kunde1" "use_ai kunde1" "ai_requests_today kunde1 < ai_requests_limit kunde1"
  "is_active kunde1_spent" "use_ai kunde1_spent"
  "ai_requests_limit kunde1_spent \<le> ai_requests_today kunde1_spent"
  "\<not> ai_requests_today kunde1_spent < ai_requests_limit kunde1_spent"
  "\<not> ai_requests_limit kunde1 \<le> ai_requests_today kunde1"
  "requests_used world1 (u ''kunde1'') = 0" "ai_requests_today kunde1 = 0" "ai_requests_limit kunde1 = 1" "messages world1 = []" "messages world1_spent = []"
  by (simp_all add: world1_def world1_spent_def kunde1_def kunde1_spent_def requests_used_def)

lemma env_facts:
  "debug_logging env_ok = False" "debug_logging env_ai_down = False"
  "debug_logging env_knowledge_down = False" "debug_logging env_history_down = False"
  "debug_logging env_ai_and_save_down = False"
  "debug_logging env_debug = True" "fails env_debug op = False"
  "fails env_ok op = False" "complete env_ok q = Some (u ''Her er svaret'')"
  "fails env_ai_down op = False" "complete env_ai_down q = None"
  "fails env_knowledge_down op = (op = KnowledgeStore)"
  "fails env_history_down op = (op = HistoryQuery)"
  "fails env_ai_and_save_down op = (op = SaveTurns)" "complete env_ai_and_save_down q = None"
  by (simp_all add: env_ok_def env_ai_down_def env_knowledge_down_def env_history_down_def
      env_ai_and_save_down_def env_debug_def)

lemma conv_ids:
  "session_conv_id req_xyz world1 = 1" "session_conv_id req_xyz world1_spent = 1"
  by (simp_all add: session_conv_id_def fresh_conv_id_def world1_def world1_spent_def)

lemma ai_calls_simps [simp]:
  "ai_calls (HistoryRead k # es) = ai_calls es"
  "ai_calls (GateChecked c b # es) = ai_calls es"
  "ai_calls (KnowledgeFetched c # es) = ai_calls es"
  "ai_calls (StoreFailed op # es) = ai_calls es"
  by simp_all

lemma canned_simps [simp]:
  "is_fallback (canned t)" "\<not> is_ai (canned t)" "intent (canned t) = None"
  "tokens_used (canned t) = None" "reply (canned t) = t"
  by (simp_all add: canned_def)

text \<open>The request of "kunde1" with the message "xyz", in a fresh session, under the five
  environments and the two stores.\<close>

lemmas xyz_setup = xyz_facts kunde1_facts env_facts conv_ids

lemma run_ai_ok:
  assumes "chat latin1 env_ok req_xyz world1 = (r, w')"
  shows "r = Inr (ai_outcome latin1 (ai_request_for (u ''kunde1'') kunde1 (u ''xyz'') [] (knowledge_texts env_ok (u ''kunde1''))) (Some (u ''Her er svaret'')))
    \<and> events w' = [HistoryRead 1, GateChecked (u ''kunde1'') True, KnowledgeFetched (u ''kunde1''),
           AICalled (ai_request_for (u ''kunde1'') kunde1 (u ''xyz'') [] (knowledge_texts env_ok (u ''kunde1'')))]
    \<and> requests_used w' (u ''kunde1'') = 1"
proof -
  from assms obtain r0 where t: "chat_try latin1 env_ok req_xyz world1 = (r0, w')"
    and r: "r = handlers r0" by (rule chat_run)
  from t show ?thesis
    by (cases rule: chat_try_trace)
      (auto simp: r xyz_setup requests_used_def)
qed

lemma run_ai_down:
  assumes "chat latin1 env_ai_down req_xyz world1 = (r, w')"
  shows "r = Inr (canned ai_error_reply)
    \<and> events w' = [HistoryRead 1, GateChecked (u ''kunde1'') True, KnowledgeFetched (u ''kunde1''),
           AICalled (ai_request_for (u ''kunde1'') kunde1 (u ''xyz'') [] (knowledge_texts env_ai_down (u ''kunde1'')))]
    \<and> requests_used w' (u ''kunde1'') = 1"
proof -
  from assms obtain r0 where t: "chat_try latin1 env_ai_down req_xyz world1 = (r0, w')"
    and r: "r = handlers r0" by (rule chat_run)
  from t show ?thesis
    by (cases rule: chat_try_trace)
      (auto simp: r xyz_setup requests_used_def ai_outcome_def)
qed

lemma run_ai_and_save_down:
  assumes "chat latin1 env_ai_and_save_down req_xyz world1 = (r, w')"
  shows "r = Inr (canned internal_error_reply)
    \<and> events w' = [HistoryRead 1, GateChecked (u ''kunde1'') True, KnowledgeFetched (u ''kunde1''),
           AICalled (ai_request_for (u ''kunde1'') kunde1 (u ''xyz'') [] (knowledge_texts env_ai_and_save_down (u ''kunde1''))), StoreFailed SaveTurns]
    \<and> requests_used w' (u ''kunde1'') = 1"
proof -
  from assms obtain r0 where t: "chat_try latin1 env_ai_and_save_down req_xyz world1 = (r0, w')"
    and r: "r = handlers r0" by (rule chat_run)
  from t show ?thesis
    by (cases rule: chat_try_trace)
      (auto simp: r xyz_setup requests_used_def ai_outcome_def)
qed

lemma run_knowledge_down:
  assumes "chat latin1 env_knowledge_down req_xyz world1 = (r, w')"
  shows "r = Inr (canned internal_error_reply)
    \<and> events w' = [HistoryRead 1, GateChecked (u ''kunde1'') True, StoreFailed KnowledgeStore]
    \<and> requests_used w' (u ''kunde1'') = 1"
proof -
  from assms obtain r0 where t: "chat_try latin1 env_knowledge_down req_xyz world1 = (r0, w')"
    and r: "r = handlers r0" by (rule chat_run)
  from t show ?thesis
    by (cases rule: chat_try_trace)
      (auto simp: r xyz_setup requests_used_def ai_outcome_def)
qed

lemma run_history_down:
  assumes "chat latin1 env_history_down req_xyz world1 = (r, w')"
  shows "r = Inr (canned internal_error_reply) \<and> events w' = [StoreFailed HistoryQuery]"
proof -
  from assms obtain r0 where t: "chat_try latin1 env_history_down req_xyz world1 = (r0, w')"
    and r: "r = handlers r0" by (rule chat_run)
  from t show ?thesis
    by (cases rule: chat_try_trace)
      (auto simp: r xyz_setup)
qed

lemma run_denied:
  assumes "chat latin1 env_ok req_xyz world1_spent = (r, w')"
  shows "r = Inr (canned quota_exceeded_reply)
    \<and> events w' = [HistoryRead 1, GateChecked (u ''kunde1'') False]"
proof -
  from assms obtain r0 where t: "chat_try latin1 env_ok req_xyz world1_spent = (r0, w')"
    and r: "r = handlers r0" by (rule chat_run)
  from t show ?thesis
    by (cases rule: chat_try_trace)
      (auto simp: r xyz_setup)
qed

lemma run_unknown:
  "chat latin1 env_ok req_unknown world1 = (Inl (HTTPException 404 (u ''Client not found'')), world1)"
proof -
  have "py_strip latin1 (req_message req_unknown) = u ''xyz''"
    by (simp add: req_unknown_def req_xyz_def strip_xyz)
  moreover have "clients world1 (req_client_id req_unknown) = None"
    by (simp add: req_unknown_def req_xyz_def world1_def u_def)
  ultimately show ?thesis
    by (simp add: chat_def chat_try_def xyz_facts env_facts)
qed

lemma strip_padded: "py_strip latin1 (req_message req_padded) = u ''hej''"
proof -
  have "py_strip latin1 (u ''hej'' @ replicate 1000 32) = u ''hej''"
    by (rule py_strip_padded) (simp_all add: u_def latin1_def py_space_def)
  then show ?thesis by (simp add: req_padded_def req_xyz_def)
qed

text \<open>With the rule engine's logger enabled for \<open>DEBUG\<close>, a message that a rule would
  answer ends in the error reply: the \<open>KeyError\<close> of the logging call is caught by the
  orchestrator's handler.\<close>

lemma run_padded_debug:
  assumes "chat latin1 env_debug req_padded world1 = (r, w')"
  shows "r = Inr (canned internal_error_reply) \<and> events w' = [HistoryRead 1]"
proof -
  from assms obtain r0 where t: "chat_try latin1 env_debug req_padded world1 = (r0, w')"
    and r: "r = handlers r0" by (rule chat_run)
  have f: "req_client_id req_padded = u ''kunde1''" "u ''hej'' \<noteq> []"
    "\<not> 1000 < length (u ''hej'')" "session_conv_id req_padded world1 = 1"
    by (simp_all add: req_padded_def req_xyz_def u_def session_conv_id_def fresh_conv_id_def
        world1_def)
  from t show ?thesis
    by (cases rule: chat_try_trace)
      (auto simp: r strip_padded rule_hej f kunde1_facts env_facts)
qed

lemma run_padded:
  assumes "chat latin1 env_ok req_padded world1 = (r, w')"
  shows "r = Inr \<lparr>reply = response_template intent_greeting, intent = Some (u ''greeting''),
                  is_ai = False, is_fallback = False, tokens_used = None\<rparr>"
proof -
  from assms obtain r0 where t: "chat_try latin1 env_ok req_padded world1 = (r0, w')"
    and r: "r = handlers r0" by (rule chat_run)
  have f: "req_client_id req_padded = u ''kunde1''" "u ''hej'' \<noteq> []"
    "\<not> 1000 < length (u ''hej'')"
    "\<lparr>reply = response_template intent_greeting, intent = Some (u ''greeting''),
      is_ai = False, is_fallback = False, tokens_used = None\<rparr> \<noteq> canned t" for t
    by (simp_all add: req_padded_def req_xyz_def u_def canned_def)
  from t show ?thesis
    by (cases rule: chat_try_trace)
      (auto simp: r strip_padded rule_hej f kunde1_facts env_facts)
qed

section \<open>Properties of the pipeline\<close>

text \<open>
  Claim C5, as the code has it. A message that is empty or consists of whitespace only
  ends in the validation step with the "write something" reply, a fallback without
  intent, and a message whose text after stripping the surrounding whitespace is
  longer than 1000 characters ends there with the "too long" reply; in both cases the
  world is left as it was: no store is consulted, the rule engine is not asked, nothing
  reaches the gate or the AI capability. The length that counts is the one after
  stripping.
\<close>

theorem validate_terminal:
  "((\<forall>c\<in>set (req_message req). uni_space U c) \<longrightarrow>
       chat U E req w = (Inr (canned write_something_reply), w))
   \<and> (1000 < length (py_strip U (req_message req)) \<longrightarrow>
       chat U E req w = (Inr (canned too_long_reply), w))
   \<and> is_fallback (canned write_something_reply) \<and> intent (canned write_something_reply) = None
   \<and> is_fallback (canned too_long_reply) \<and> intent (canned too_long_reply) = None
   \<and> write_something_reply \<noteq> engine_fallback_reply"
proof -
  have "write_something_reply \<noteq> engine_fallback_reply"
    by (simp add: write_something_reply_def engine_fallback_reply_def u_def)
  moreover have "(\<forall>c\<in>set (req_message req). uni_space U c) \<longrightarrow>
       chat U E req w = (Inr (canned write_something_reply), w)"
    by (simp add: chat_def chat_try_def py_strip_blank)
  moreover have "1000 < length (py_strip U (req_message req)) \<longrightarrow>
       chat U E req w = (Inr (canned too_long_reply), w)"
    by (auto simp: chat_def chat_try_def Let_def)
  ultimately show ?thesis by (simp add: canned_def)
qed

text \<open>A message of three whitespace characters, and one of 1001 letters.\<close>

theorem validate_terminal_witness:
  "req_message req_blank = [32, 9, 32] \<and> uni_space latin1 32 \<and> uni_space latin1 9
   \<and> chat latin1 env_ok req_blank world1 = (Inr (canned write_something_reply), world1)
   \<and> 1000 < length (py_strip latin1 (req_message req_long))
   \<and> chat latin1 env_ok req_long world1 = (Inr (canned too_long_reply), world1)"
proof -
  have a: "\<forall>c\<in>set (req_message req_blank). uni_space latin1 c"
    by (simp add: req_blank_def req_xyz_def latin1_def py_space_def)
  have "py_strip latin1 (replicate 1001 97 @ replicate 0 32) = replicate 1001 97"
    by (rule py_strip_padded) (simp_all add: latin1_def py_space_def)
  then have b: "1000 < length (py_strip latin1 (req_message req_long))"
    by (simp add: req_long_def req_xyz_def)
  have a': "req_message req_blank = [32, 9, 32] \<and> uni_space latin1 32 \<and> uni_space latin1 9"
    by (simp add: req_blank_def req_xyz_def latin1_def py_space_def)
  from a a' b validate_terminal [of req_blank latin1 env_ok world1]
    validate_terminal [of req_long latin1 env_ok world1]
  show ?thesis by blast
qed

text \<open>
  Claim C5 as stated fails: the greeting "hej" followed by a thousand spaces is longer than
  1000 characters, yet it is answered by the \<open>greeting\<close> intent and not by the "too long"
  reply.
\<close>

theorem padded_message_counterexample:
  "1000 < length (req_message req_padded)
   \<and> fst (chat latin1 env_ok req_padded world1) =
       Inr \<lparr>reply = response_template intent_greeting, intent = Some (u ''greeting''),
            is_ai = False, is_fallback = False, tokens_used = None\<rparr>
   \<and> fst (chat latin1 env_ok req_padded world1) \<noteq> Inr (canned too_long_reply)"
proof -
  have "1000 < length (req_message req_padded)"
    by (simp add: req_padded_def req_xyz_def u_def)
  moreover have "fst (chat latin1 env_ok req_padded world1) =
       Inr \<lparr>reply = response_template intent_greeting, intent = Some (u ''greeting''),
            is_ai = False, is_fallback = False, tokens_used = None\<rparr>"
    by (rule run_padded) (rule prod.collapse [symmetric])
  ultimately show ?thesis by (simp add: canned_def)
qed

text \<open>
  Claim C4, as the code has it. A request ends in a response, or in the
  \<open>HTTPException\<close> 404 "Client not found", or in the \<open>HTTPException\<close> 403 "Client is not
  active"; the 404 is raised exactly for a valid message whose client the store does not
  know, the 403 exactly for a valid message of a client that is not active. No other
  exception reaches the caller: whenever an interaction with a store raises, the request
  ends with the error reply "Der opstod en fejl", a fallback, which is not the text of
  the final fallback.
\<close>

theorem chat_outcomes:
  assumes "chat U E req w = (r, w')"
  shows "((\<exists>rd. r = Inr rd) \<or> r = Inl (HTTPException 404 (u ''Client not found''))
            \<or> r = Inl (HTTPException 403 (u ''Client is not active'')))
     \<and> (r = Inl (HTTPException 404 (u ''Client not found'')) \<longleftrightarrow>
           py_strip U (req_message req) \<noteq> [] \<and> length (py_strip U (req_message req)) \<le> 1000
           \<and> \<not> fails E ClientLookup \<and> clients w (req_client_id req) = None)
     \<and> (r = Inl (HTTPException 403 (u ''Client is not active'')) \<longleftrightarrow>
           py_strip U (req_message req) \<noteq> [] \<and> length (py_strip U (req_message req)) \<le> 1000
           \<and> \<not> fails E ClientLookup
           \<and> (\<exists>c. clients w (req_client_id req) = Some c \<and> \<not> is_active c))
     \<and> (\<forall>op. StoreFailed op \<in> set (new_events w w') \<longrightarrow> r = Inr (canned internal_error_reply))
     \<and> is_fallback (canned internal_error_reply)
     \<and> internal_error_reply \<noteq> final_fallback_reply"
proof -
  from assms obtain r0 where t: "chat_try U E req w = (r0, w')" and r: "r = handlers r0"
    by (rule chat_run)
  have "internal_error_reply \<noteq> final_fallback_reply"
    by (simp add: internal_error_reply_def final_fallback_reply_def u_def)
  moreover from t have "((\<exists>rd. r = Inr rd) \<or> r = Inl (HTTPException 404 (u ''Client not found''))
            \<or> r = Inl (HTTPException 403 (u ''Client is not active'')))
     \<and> (r = Inl (HTTPException 404 (u ''Client not found'')) \<longleftrightarrow>
           py_strip U (req_message req) \<noteq> [] \<and> length (py_strip U (req_message req)) \<le> 1000
           \<and> \<not> fails E ClientLookup \<and> clients w (req_client_id req) = None)
     \<and> (r = Inl (HTTPException 403 (u ''Client is not active'')) \<longleftrightarrow>
           py_strip U (req_message req) \<noteq> [] \<and> length (py_strip U (req_message req)) \<le> 1000
           \<and> \<not> fails E ClientLookup
           \<and> (\<exists>c. clients w (req_client_id req) = Some c \<and> \<not> is_active c))
     \<and> (\<forall>op. StoreFailed op \<in> set (new_events w w') \<longrightarrow> r = Inr (canned internal_error_reply))"
    by (cases rule: chat_try_trace) (auto simp: r new_events_append)
  moreover have "is_fallback (canned internal_error_reply)" by simp
  ultimately show ?thesis by blast
qed

theorem chat_outcomes_witness:
  "StoreFailed HistoryQuery \<in> set (new_events world1 (snd (chat latin1 env_history_down req_xyz world1)))
   \<and> fst (chat latin1 env_history_down req_xyz world1) = Inr (canned internal_error_reply)"
proof -
  let ?c = "chat latin1 env_history_down req_xyz world1"
  have c: "?c = (fst ?c, snd ?c)" by simp
  from run_history_down [OF c]
  have h: "StoreFailed HistoryQuery \<in> set (new_events world1 (snd ?c))"
    by (simp add: new_events_def kunde1_facts)
  with chat_outcomes [OF c] show ?thesis by blast
qed

text \<open>Claim C4 as stated fails: a request of an unknown client ends in an error that
  reaches the caller.\<close>

theorem unknown_client_counterexample:
  "fst (chat latin1 env_ok req_unknown world1) = Inl (HTTPException 404 (u ''Client not found''))"
  by (simp add: run_unknown)

text \<open>
  Claim C6, as the code has it. When the gate denies, the request ends with the
  quota-exceeded reply, a fallback; the AI capability is not invoked and the knowledge
  store is not consulted, and neither a counter nor a stored turn changes. The gate is
  reached only after the rule engine has returned its fallback, with AI enabled by the request and by the tenant,
  whose counter has reached its limit. The request's trace is the read of the
  conversation history, which precedes the rule attempt, followed by the gate's denial.
\<close>

theorem gate_denied_terminal:
  assumes "chat U E req w = (r, w')"
    and "GateChecked cid False \<in> set (new_events w w')"
  shows "r = Inr (canned quota_exceeded_reply) \<and> is_fallback (canned quota_exceeded_reply)
     \<and> ai_calls (new_events w w') = []
     \<and> (\<forall>c. KnowledgeFetched c \<notin> set (new_events w w'))
     \<and> clients w' = clients w \<and> messages w' = messages w
     \<and> cid = req_client_id req
     \<and> new_events w w' = [HistoryRead (session_conv_id req w), GateChecked cid False]
     \<and> rule_get_response (debug_logging E) U (py_strip U (req_message req)) (req_client_id req) =
           Inr (canned engine_fallback_reply)
     \<and> is_fallback (canned engine_fallback_reply)
     \<and> req_use_ai req
     \<and> (\<exists>c. clients w cid = Some c \<and> use_ai c \<and> ai_requests_limit c \<le> ai_requests_today c)"
proof -
  from assms(1) obtain r0 where t: "chat_try U E req w = (r0, w')" and r: "r = handlers r0"
    by (rule chat_run)
  from t assms(2) show ?thesis
    by (cases rule: chat_try_trace) (auto simp: r new_events_append)
qed

theorem gate_denied_terminal_witness:
  "GateChecked (u ''kunde1'') False \<in> set (new_events world1_spent (snd (chat latin1 env_ok req_xyz world1_spent)))
   \<and> fst (chat latin1 env_ok req_xyz world1_spent) = Inr (canned quota_exceeded_reply)
   \<and> ai_calls (new_events world1_spent (snd (chat latin1 env_ok req_xyz world1_spent))) = []"
proof -
  let ?c = "chat latin1 env_ok req_xyz world1_spent"
  have c: "?c = (fst ?c, snd ?c)" by simp
  from run_denied [OF c]
  have h: "GateChecked (u ''kunde1'') False \<in> set (new_events world1_spent (snd ?c))"
    by (simp add: new_events_def kunde1_facts)
  with gate_denied_terminal [OF c h] show ?thesis by blast
qed

text \<open>Claim C6 as stated fails in its last part: on a request the gate denies, the
  history half of the context has been read.\<close>

theorem history_read_counterexample:
  "GateChecked (u ''kunde1'') False \<in> set (new_events world1_spent (snd (chat latin1 env_ok req_xyz world1_spent)))
   \<and> HistoryRead 1 \<in> set (new_events world1_spent (snd (chat latin1 env_ok req_xyz world1_spent)))"
proof -
  let ?c = "chat latin1 env_ok req_xyz world1_spent"
  have c: "?c = (fst ?c, snd ?c)" by simp
  from run_denied [OF c] show ?thesis
    by (simp add: new_events_def kunde1_facts)
qed

text \<open>
  Claim C9, as the code has it. When the history query or the knowledge store raises, the
  request is aborted: it ends with the error reply, a fallback. With either of the two
  unavailable no request reaches the AI capability and no response is an AI response.
\<close>

theorem store_failure_aborts:
  assumes "chat U E req w = (r, w')"
  shows "(fails E HistoryQuery \<or> fails E KnowledgeStore \<longrightarrow>
            ai_calls (new_events w w') = [] \<and> (\<forall>rd. r = Inr rd \<longrightarrow> \<not> is_ai rd))
     \<and> (StoreFailed HistoryQuery \<in> set (new_events w w')
          \<or> StoreFailed KnowledgeStore \<in> set (new_events w w') \<longrightarrow>
            r = Inr (canned internal_error_reply))
     \<and> is_fallback (canned internal_error_reply)"
proof -
  from assms obtain r0 where t: "chat_try U E req w = (r0, w')" and r: "r = handlers r0"
    by (rule chat_run)
  have rr: "rule_get_response dbg U m c = Inr rd \<Longrightarrow> \<not> is_ai rd" for dbg m c rd
    by (auto simp: rule_get_response_def canned_def split: if_splits sum.splits option.splits)
  from t show ?thesis
    by (cases rule: chat_try_trace) (auto simp: r new_events_append dest: rr)
qed

theorem store_failure_aborts_witness:
  "fails env_history_down HistoryQuery
   \<and> StoreFailed HistoryQuery \<in> set (new_events world1 (snd (chat latin1 env_history_down req_xyz world1)))
   \<and> fst (chat latin1 env_history_down req_xyz world1) = Inr (canned internal_error_reply)
   \<and> ai_calls (new_events world1 (snd (chat latin1 env_history_down req_xyz world1))) = []
   \<and> fails env_knowledge_down KnowledgeStore
   \<and> StoreFailed KnowledgeStore \<in> set (new_events world1 (snd (chat latin1 env_knowledge_down req_xyz world1)))
   \<and> fst (chat latin1 env_knowledge_down req_xyz world1) = Inr (canned internal_error_reply)
   \<and> ai_calls (new_events world1 (snd (chat latin1 env_knowledge_down req_xyz world1))) = []"
proof -
  let ?c = "chat latin1 env_history_down req_xyz world1"
  let ?d = "chat latin1 env_knowledge_down req_xyz world1"
  have c: "?c = (fst ?c, snd ?c)" and d: "?d = (fst ?d, snd ?d)" by simp_all
  have f: "fails env_history_down HistoryQuery" "fails env_knowledge_down KnowledgeStore"
    by (simp_all add: env_facts)
  from run_history_down [OF c]
  have h: "StoreFailed HistoryQuery \<in> set (new_events world1 (snd ?c))"
    by (simp add: new_events_def kunde1_facts)
  from run_knowledge_down [OF d]
  have k: "StoreFailed KnowledgeStore \<in> set (new_events world1 (snd ?d))"
    by (simp add: new_events_def kunde1_facts)
  from f h k store_failure_aborts [OF c] store_failure_aborts [OF d]
  show ?thesis by blast
qed

text \<open>
  Claim C9 as stated fails: the request that reaches the AI capability when the stores
  work is aborted with the error reply, without an AI call, when the history query raises.
\<close>

theorem history_down_counterexample:
  "ai_calls (new_events world1 (snd (chat latin1 env_ok req_xyz world1))) \<noteq> []
   \<and> fails env_history_down HistoryQuery
   \<and> fst (chat latin1 env_history_down req_xyz world1) = Inr (canned internal_error_reply)
   \<and> ai_calls (new_events world1 (snd (chat latin1 env_history_down req_xyz world1))) = []"
proof -
  let ?c = "chat latin1 env_history_down req_xyz world1"
  let ?d = "chat latin1 env_ok req_xyz world1"
  have c: "?c = (fst ?c, snd ?c)" and d: "?d = (fst ?d, snd ?d)" by simp_all
  from run_history_down [OF c] run_ai_ok [OF d] show ?thesis
    by (simp add: new_events_def kunde1_facts env_facts)
qed

text \<open>
  Claim C2, as the code has it. A request issues at most one AI call. The counter of the
  request's tenant goes up by one when an AI call is issued or when the knowledge store
  raises after the gate has admitted the request, and stays as it was otherwise; no other
  tenant's counter changes. A request answered by a rule, one whose rule attempt raises,
  one that fails validation and one the gate denies leave every counter as it was and
  issue no AI call. An AI call is issued only after the gate has admitted the request,
  and always then unless the knowledge store raises. When the AI capability
  raises, the request ends with the AI-error reply (a fallback that is not an AI answer),
  or with the error reply if saving the turns raises afterwards; the caller gets a
  response either way.
\<close>

theorem usage_counter_accounting:
  assumes "chat U E req w = (r, w')"
  shows "length (ai_calls (new_events w w')) \<le> 1
     \<and> requests_used w' (req_client_id req) = requests_used w (req_client_id req)
          + (if ai_calls (new_events w w') \<noteq> [] \<or> StoreFailed KnowledgeStore \<in> set (new_events w w')
             then 1 else 0)
     \<and> (\<forall>other. other \<noteq> req_client_id req \<longrightarrow> clients w' other = clients w other)
     \<and> ((\<exists>rd. rule_get_response (debug_logging E) U (py_strip U (req_message req))
                   (req_client_id req) = Inr rd \<and> \<not> is_fallback rd)
          \<or> (\<exists>e. rule_get_response (debug_logging E) U (py_strip U (req_message req))
                   (req_client_id req) = Inl e)
          \<or> py_strip U (req_message req) = [] \<or> 1000 < length (py_strip U (req_message req))
          \<or> GateChecked (req_client_id req) False \<in> set (new_events w w') \<longrightarrow>
          clients w' = clients w \<and> ai_calls (new_events w w') = [])
     \<and> (ai_calls (new_events w w') \<noteq> [] \<longrightarrow>
          GateChecked (req_client_id req) True \<in> set (new_events w w'))
     \<and> (GateChecked (req_client_id req) True \<in> set (new_events w w')
          \<and> StoreFailed KnowledgeStore \<notin> set (new_events w w') \<longrightarrow>
          length (ai_calls (new_events w w')) = 1)
     \<and> (\<forall>q\<in>set (ai_calls (new_events w w')). complete E q = None \<longrightarrow>
          r = Inr (canned ai_error_reply)
          \<or> (StoreFailed SaveTurns \<in> set (new_events w w') \<and> r = Inr (canned internal_error_reply)))
     \<and> is_fallback (canned ai_error_reply) \<and> \<not> is_ai (canned ai_error_reply)"
proof -
  from assms obtain r0 where t: "chat_try U E req w = (r0, w')" and r: "r = handlers r0"
    by (rule chat_run)
  from t show ?thesis
    by (cases rule: chat_try_trace)
      (auto simp: r new_events_append requests_used_def ai_outcome_def)
qed

theorem usage_counter_accounting_witness:
  "ai_calls (new_events world1 (snd (chat latin1 env_ai_down req_xyz world1))) =
     [ai_request_for (u ''kunde1'') kunde1 (u ''xyz'') [] (knowledge_texts env_ai_down (u ''kunde1''))]
   \<and> complete env_ai_down (ai_request_for (u ''kunde1'') kunde1 (u ''xyz'') [] (knowledge_texts env_ai_down (u ''kunde1''))) = None
   \<and> fst (chat latin1 env_ai_down req_xyz world1) = Inr (canned ai_error_reply)
   \<and> requests_used (snd (chat latin1 env_ai_down req_xyz world1)) (u ''kunde1'') =
       requests_used world1 (u ''kunde1'') + 1"
proof -
  let ?c = "chat latin1 env_ai_down req_xyz world1"
  let ?q = "ai_request_for (u ''kunde1'') kunde1 (u ''xyz'') [] (knowledge_texts env_ai_down (u ''kunde1''))"
  have c: "?c = (fst ?c, snd ?c)" by simp
  note run = run_ai_down [OF c]
  from run have e: "new_events world1 (snd ?c) =
      [HistoryRead 1, GateChecked (u ''kunde1'') True, KnowledgeFetched (u ''kunde1''), AICalled ?q]"
    by (simp add: new_events_def kunde1_facts)
  then have a: "ai_calls (new_events world1 (snd ?c)) = [?q]" by simp
  have n: "complete env_ai_down ?q = None" by (simp add: env_facts)
  have s: "StoreFailed SaveTurns \<notin> set (new_events world1 (snd ?c))" using e by simp
  from usage_counter_accounting [OF c] a n s
  have "fst ?c = Inr (canned ai_error_reply)" by simp
  moreover from usage_counter_accounting [OF c] a
  have "requests_used (snd ?c) (u ''kunde1'') = requests_used world1 (u ''kunde1'') + 1"
    by (simp add: xyz_facts)
  ultimately show ?thesis using a n by simp
qed

text \<open>
  Claim C2 as stated fails: when the knowledge store raises after the gate has admitted
  the request, the counter has gone up and no AI call is issued; and when the capability
  raises and saving the turns raises after it, the reply is the error reply, not the
  AI-error reply.
\<close>

theorem slot_without_call_counterexample:
  "requests_used (snd (chat latin1 env_knowledge_down req_xyz world1)) (u ''kunde1'') =
     requests_used world1 (u ''kunde1'') + 1
   \<and> ai_calls (new_events world1 (snd (chat latin1 env_knowledge_down req_xyz world1))) = []
   \<and> ai_calls (new_events world1 (snd (chat latin1 env_ai_and_save_down req_xyz world1))) \<noteq> []
   \<and> fst (chat latin1 env_ai_and_save_down req_xyz world1) = Inr (canned internal_error_reply)
   \<and> canned internal_error_reply \<noteq> canned ai_error_reply"
proof -
  let ?c = "chat latin1 env_knowledge_down req_xyz world1"
  let ?d = "chat latin1 env_ai_and_save_down req_xyz world1"
  have c: "?c = (fst ?c, snd ?c)" and d: "?d = (fst ?d, snd ?d)" by simp_all
  have "internal_error_reply \<noteq> ai_error_reply"
    by (simp add: internal_error_reply_def ai_error_reply_def u_def)
  with run_knowledge_down [OF c] run_ai_and_save_down [OF d] show ?thesis
    by (simp add: new_events_def kunde1_facts canned_def)
qed

lemma match_intent_in: "match_intent dbg U xs msg = Inr (Some i) \<Longrightarrow> i \<in> set xs"
  by (induction xs) (auto split: if_splits)

lemma rule_get_response_shape:
  assumes "rule_get_response dbg U m c = Inr rd"
  shows "(is_fallback rd \<longleftrightarrow> intent rd = None) \<and> \<not> is_ai rd \<and> tokens_used rd = None
   \<and> (\<not> is_fallback rd \<longrightarrow>
        (\<exists>i\<in>set intent_defs. intent rd = Some (name i) \<and> reply rd = response_template i))"
  using assms
  by (auto simp: rule_get_response_def set_intents canned_def
      split: if_splits sum.splits option.splits dest!: match_intent_in)

text \<open>
  Claim C10. In every response the pipeline returns, \<open>is_fallback\<close> holds exactly when
  there is no intent; a response that is not a fallback carries the intent
  "ai\_response" and is an AI answer, or carries the name of an intent of the catalog
  and is not; \<open>tokens_used\<close> is present exactly in AI answers, which are never fallbacks.
\<close>

theorem fallback_iff_no_intent:
  assumes "chat U E req w = (Inr rd, w')"
  shows "(is_fallback rd \<longleftrightarrow> intent rd = None)
     \<and> (\<not> is_fallback rd \<longrightarrow>
          intent rd = Some (u ''ai_response'') \<and> is_ai rd
          \<or> (\<exists>i\<in>set intent_defs. intent rd = Some (name i)) \<and> \<not> is_ai rd)
     \<and> (tokens_used rd \<noteq> None \<longleftrightarrow> is_ai rd)
     \<and> (is_ai rd \<longrightarrow> \<not> is_fallback rd \<and> intent rd = Some (u ''ai_response''))"
proof -
  from assms obtain r0 where t: "chat_try U E req w = (r0, w')" and r: "Inr rd = handlers r0"
    by (rule chat_run)
  note rs = rule_get_response_shape
    [of "debug_logging E" U "py_strip U (req_message req)" "req_client_id req"]
  from t r show ?thesis
    by (cases rule: chat_try_trace) (auto simp: ai_outcome_def split: option.splits dest: rs)
qed

theorem fallback_iff_no_intent_witness:
  "chat latin1 env_ok req_xyz world1 =
     (Inr (ai_outcome latin1 (ai_request_for (u ''kunde1'') kunde1 (u ''xyz'') [] (knowledge_texts env_ok (u ''kunde1''))) (Some (u ''Her er svaret''))),
      snd (chat latin1 env_ok req_xyz world1))
   \<and> \<not> is_fallback (ai_outcome latin1 (ai_request_for (u ''kunde1'') kunde1 (u ''xyz'') [] (knowledge_texts env_ok (u ''kunde1''))) (Some (u ''Her er svaret'')))
   \<and> intent (ai_outcome latin1 (ai_request_for (u ''kunde1'') kunde1 (u ''xyz'') [] (knowledge_texts env_ok (u ''kunde1''))) (Some (u ''Her er svaret''))) = Some (u ''ai_response'')
   \<and> tokens_used (ai_outcome latin1 (ai_request_for (u ''kunde1'') kunde1 (u ''xyz'') [] (knowledge_texts env_ok (u ''kunde1''))) (Some (u ''Her er svaret''))) \<noteq> None"
proof -
  let ?c = "chat latin1 env_ok req_xyz world1"
  let ?rd = "ai_outcome latin1 (ai_request_for (u ''kunde1'') kunde1 (u ''xyz'') [] (knowledge_texts env_ok (u ''kunde1''))) (Some (u ''Her er svaret''))"
  have "?c = (fst ?c, snd ?c)" by simp
  from run_ai_ok [OF this] have c: "?c = (Inr ?rd, snd ?c)"
    by (metis prod.collapse)
  have ai: "is_ai ?rd" by (simp add: ai_outcome_def)
  from fallback_iff_no_intent [OF c] ai c show ?thesis by blast
qed

section \<open>The context handed to the AI capability\<close>












end
